theory Spec2Isabelle
  imports Complex_Main
begin

section \<open>Data model of the PdfHighlighter component\<close>

text \<open>
  The component \<^verbatim>\<open>PdfHighlighter\<close> (src/components/PdfHighlighter.tsx) keeps its
  state in React refs (\<^verbatim>\<open>useRef\<close>) and React state variables (\<^verbatim>\<open>useState\<close>) and reacts
  to events of the document, of the PDF.js viewer and of its child components. The
  embedding is a record of that state and one function per handler of the component;
  a handler that can throw returns the error together with the state it left behind.
  DOM elements and React roots are identities (natural numbers); JavaScript numbers
  are idealised as reals.
\<close>

type_synonym element = nat
type_synonym root = nat

text \<open>Rectangles and positions (the declarations of \<^verbatim>\<open>../types\<close>, as far as the
  component reads them).\<close>

record ltwhp =
  rect_left :: real
  rect_top :: real
  rect_width :: real
  rect_height :: real
  rect_pageNumber :: "nat option"

record scaled =
  x1 :: real
  y1 :: real
  x2 :: real
  y2 :: real
  scaled_width :: real
  scaled_height :: real
  scaled_pageNumber :: nat

record viewport_position =
  vp_boundingRect :: ltwhp
  vp_rects :: "ltwhp list"

record scaled_position =
  sp_boundingRect :: scaled
  sp_rects :: "scaled list"
  usePdfCoordinates :: "bool option"

record content =
  content_text :: "string option"
  content_image :: "string option"

record ghost_highlight =
  gh_content :: content
  gh_position :: scaled_position

record highlight =
  hl_id :: string
  hl_content :: content
  hl_position :: scaled_position

text \<open>The array \<^verbatim>\<open>[...highlightsRef.current, ghostHighlightRef.current]\<close> handed to
  \<^verbatim>\<open>groupHighlightsByPage\<close> holds stored highlights, the ghost highlight, or null.\<close>

datatype layer_item = Stored highlight | Ghost ghost_highlight | Null

text \<open>
  The closures the component hands out, defunctionalised: the function
  \<^verbatim>\<open>hideTipAndGhostHighlight\<close>, the arrow function of \<^verbatim>\<open>afterSelection\<close> (it captures
  \<^verbatim>\<open>content\<close> and \<^verbatim>\<open>scaledPosition\<close>) and the arrow function of the area selection (it
  captures \<^verbatim>\<open>image\<close> and \<^verbatim>\<open>scaledPosition\<close>).
\<close>

datatype continuation =
    HideTipAndGhostHighlight
  | TransformSelection content scaled_position
  | TransformAreaSelection string scaled_position

datatype react_element = ReactElement string "continuation list"

record view_highlight =
  vh_position :: viewport_position

datatype tip_body = TipElement react_element | TipFunction "view_highlight \<Rightarrow> react_element"

record tip =
  tip_highlight :: view_highlight
  tip_content :: tip_body

text \<open>The element \<^verbatim>\<open><HighlightLayer ... />\<close> that \<^verbatim>\<open>renderHighlightLayer\<close> renders: its
  data props. The other props (the viewer object, \<^verbatim>\<open>showTip\<close>, \<^verbatim>\<open>setTip\<close>,
  \<^verbatim>\<open>hideTipAndGhostHighlight\<close>, \<^verbatim>\<open>children\<close>) are the same references at every call.\<close>

record layer_element =
  le_highlightsByPage :: "nat \<Rightarrow> layer_item list"
  le_pageNumber :: nat
  le_scrolledToHighlightId :: "string option"

text \<open>The DOM selection and range, as far as the handlers read them.\<close>

record range =
  commonAncestorContainer :: element
  range_toString :: string

record selection =
  rangeCount :: nat
  isCollapsed :: bool
  getRangeAt0 :: range

record selection_change =
  getSelection :: "selection option"
  containerContains :: "element \<Rightarrow> bool"

record pointer_event =
  targetIsHTMLElement :: bool
  targetInTipContainer :: bool

record page_info =
  page_node :: element
  page_number :: nat

text \<open>The PDF.js viewer: its page views with their text layers and viewports.\<close>

record viewport =
  viewport_scale :: real
  viewport_width :: real
  viewport_height :: real

record text_layer =
  textLayerDiv :: element

record page_view =
  textLayer :: "text_layer option"
  pv_viewport :: viewport

record scroll_request =
  sr_pageNumber :: nat
  sr_destArray :: "real list"

record viewer =
  pageViews :: "nat \<Rightarrow> page_view option"
  scrollPageIntoViewCalls :: "scroll_request list"

text \<open>The part of the DOM the component observes: which elements are attached to the
  document, and the layer with a given class name inside an element.\<close>

record dom_state =
  isConnected :: "element \<Rightarrow> bool"
  layerOf :: "element \<Rightarrow> string \<Rightarrow> element option"
  nextElement :: element

record HighlightRoot =
  reactRoot :: root
  container :: element

datatype error = TypeError

datatype debounce_entry = Handled nat | Called nat | Invoked nat

record state =
  highlightsRef :: "highlight list"
  ghostHighlightRef :: "ghost_highlight option"
  isCollapsedRef :: bool
  rangeRef :: "range option"
  scrolledToHighlightIdRef :: "string option"
  isAreaSelectionInProgressRef :: bool
  tipState :: "tip option"
  tipPosition :: "viewport_position option"
  tipChildren :: "react_element option"
  containerNodeRef :: "element option"
  highlightRootsRef :: "nat \<Rightarrow> HighlightRoot option"
  viewerRef :: "viewer option"
  scrollListenerAttached :: bool
  domState :: dom_state
  rendered :: "root \<Rightarrow> layer_element option"
  nextRoot :: root
  now :: nat
  debounceTimer :: "nat option"
  timeouts :: "nat list"
  debounceLog :: "debounce_entry list"
  selectionFinishedCalls :: "(scaled_position \<times> content \<times> continuation \<times> continuation) list"
  scrollChangeCalls :: nat
  resetSelectionCalls :: nat
  consoleLog :: "string list"

type_synonym result = "(error \<times> state) + state"

text \<open>The props of the component that the handlers use.\<close>

record props =
  numPages :: nat
  onSelectionFinished ::
    "scaled_position \<Rightarrow> content \<Rightarrow> continuation \<Rightarrow> continuation \<Rightarrow> react_element option"

text \<open>
  The helper functions the component imports from \<^verbatim>\<open>../lib\<close> and the viewport method
  \<^verbatim>\<open>convertToPdfPoint\<close> of PDF.js are not part of the sources at hand: they are
  parameters of the model, assumed to return.
\<close>

record lib =
  getPagesFromRange :: "range \<Rightarrow> page_info list option"
  getClientRects :: "range \<Rightarrow> page_info list \<Rightarrow> ltwhp list"
  getBoundingRect :: "ltwhp list \<Rightarrow> ltwhp"
  viewportPositionToScaled :: "viewport_position \<Rightarrow> viewer option \<Rightarrow> scaled_position"
  scaledToViewport :: "scaled \<Rightarrow> viewport \<Rightarrow> bool option \<Rightarrow> ltwhp"
  convertToPdfPoint :: "viewport \<Rightarrow> real \<Rightarrow> real \<Rightarrow> real list"
  groupHighlightsByPage :: "layer_item list \<Rightarrow> nat \<Rightarrow> layer_item list"
  findOrCreateContainerLayer :: "element \<Rightarrow> string \<Rightarrow> dom_state \<Rightarrow> element \<times> dom_state"

section \<open>The handlers\<close>

definition stateOf :: "result \<Rightarrow> state" where
  "stateOf r = (case r of Inl (e, s) \<Rightarrow> s | Inr s \<Rightarrow> s)"

definition getPageView :: "viewer \<Rightarrow> int \<Rightarrow> page_view option" where
  "getPageView v i = (if i < 0 then None else pageViews v (nat i))"

text \<open>\<^verbatim>\<open>findOrCreateHighlightLayer\<close> (lines 145-153). \<^verbatim>\<open>viewerRef.current!\<close> throws a
  TypeError when the viewer is null; a missing page view or text layer gives null.\<close>

definition findOrCreateHighlightLayer ::
  "lib \<Rightarrow> nat \<Rightarrow> state \<Rightarrow> (error \<times> state) + (element option \<times> state)" where
  "findOrCreateHighlightLayer L page s =
    (case viewerRef s of
       None \<Rightarrow> Inl (TypeError, s)
     | Some v \<Rightarrow>
        (case getPageView v (int page - 1) of
           None \<Rightarrow> Inr (None, s)
         | Some pv \<Rightarrow>
            (case textLayer pv of
               None \<Rightarrow> Inr (None, s)
             | Some tlayer \<Rightarrow>
                (case findOrCreateContainerLayer L (textLayerDiv tlayer)
                        ''PdfHighlighter__highlight-layer'' (domState s) of
                   (layer, d) \<Rightarrow> Inr (Some layer, s\<lparr>domState := d\<rparr>)))))"

text \<open>\<^verbatim>\<open>showTip\<close> (lines 155-173).\<close>

definition showTip :: "tip \<Rightarrow> state \<Rightarrow> state" where
  "showTip t s =
    (if \<not> isCollapsedRef s \<or> ghostHighlightRef s \<noteq> None \<or> isAreaSelectionInProgressRef s
     then s
     else
       (case tip_content t of
          TipFunction f \<Rightarrow>
            s\<lparr>tipPosition := Some (vh_position (tip_highlight t)),
              tipChildren := Some (f (tip_highlight t))\<rparr>
        | TipElement e \<Rightarrow>
            s\<lparr>tipPosition := Some (vh_position (tip_highlight t)),
              tipChildren := Some e\<rparr>))"

text \<open>\<^verbatim>\<open>renderHighlightLayer\<close> (lines 355-373): nothing without a viewer, otherwise the
  root renders the layer element built from the refs.\<close>

definition layerElement :: "lib \<Rightarrow> state \<Rightarrow> nat \<Rightarrow> layer_element" where
  "layerElement L s pageNumber =
    \<lparr>le_highlightsByPage =
        groupHighlightsByPage L
          (map Stored (highlightsRef s) @
            [case ghostHighlightRef s of None \<Rightarrow> Null | Some g \<Rightarrow> Ghost g]),
      le_pageNumber = pageNumber,
      le_scrolledToHighlightId = scrolledToHighlightIdRef s\<rparr>"

definition renderHighlightLayer :: "lib \<Rightarrow> root \<Rightarrow> nat \<Rightarrow> state \<Rightarrow> state" where
  "renderHighlightLayer L r pageNumber s =
    (case viewerRef s of
       None \<Rightarrow> s
     | Some v \<Rightarrow> s\<lparr>rendered := (rendered s)(r \<mapsto> layerElement L s pageNumber)\<rparr>)"

text \<open>The body of the loop of \<^verbatim>\<open>renderHighlightLayers\<close> (lines 335-351) for one page.
  \<^verbatim>\<open>createRoot\<close> returns a root that did not exist before.\<close>

definition renderPage :: "lib \<Rightarrow> nat \<Rightarrow> state \<Rightarrow> result" where
  "renderPage L pageNumber s =
    (if (case highlightRootsRef s pageNumber of
           None \<Rightarrow> False
         | Some highlightRoot \<Rightarrow> isConnected (domState s) (container highlightRoot))
     then
       (case highlightRootsRef s pageNumber of
          None \<Rightarrow> Inr s
        | Some highlightRoot \<Rightarrow>
            Inr (renderHighlightLayer L (reactRoot highlightRoot) pageNumber s))
     else
       (case findOrCreateHighlightLayer L pageNumber s of
          Inl e \<Rightarrow> Inl e
        | Inr (None, s1) \<Rightarrow> Inr s1
        | Inr (Some highlightLayer, s1) \<Rightarrow>
            Inr (renderHighlightLayer L (nextRoot s1) pageNumber
                  (s1\<lparr>nextRoot := Suc (nextRoot s1),
                      highlightRootsRef := (highlightRootsRef s1)
                        (pageNumber \<mapsto>
                          \<lparr>reactRoot = nextRoot s1, container = highlightLayer\<rparr>)\<rparr>))))"

text \<open>\<^verbatim>\<open>renderHighlightLayers\<close> (lines 333-353): the pages from \<open>pageNumber\<close> up to
  \<^verbatim>\<open>pdfDocument.numPages\<close>, in order; a throw ends the loop.\<close>

function renderPagesFrom :: "props \<Rightarrow> lib \<Rightarrow> nat \<Rightarrow> state \<Rightarrow> result" where
  "renderPagesFrom P L pageNumber s =
    (if pageNumber \<le> numPages P
     then (case renderPage L pageNumber s of
             Inl e \<Rightarrow> Inl e
           | Inr s1 \<Rightarrow> renderPagesFrom P L (pageNumber + 1) s1)
     else Inr s)"
  by pat_completeness auto
termination
  by (relation "measure (\<lambda>(P, L, pageNumber, s). numPages P + 1 - pageNumber)") auto

definition renderHighlightLayers :: "props \<Rightarrow> lib \<Rightarrow> state \<Rightarrow> result" where
  "renderHighlightLayers P L s = renderPagesFrom P L 1 s"

text \<open>\<^verbatim>\<open>hideTipAndGhostHighlight\<close> (lines 175-181).\<close>

definition hideTipAndGhostHighlight :: "props \<Rightarrow> lib \<Rightarrow> state \<Rightarrow> result" where
  "hideTipAndGhostHighlight P L s =
    renderHighlightLayers P L
      (s\<lparr>tipPosition := None, tipChildren := None, ghostHighlightRef := None,
         tipState := None\<rparr>)"

text \<open>\<^verbatim>\<open>scrollTo\<close> (lines 183-216). The scroll listener is removed first; a missing
  page view throws at \<^verbatim>\<open>.viewport\<close>, after the removal. \<^verbatim>\<open>setTimeout(..., 100)\<close> adds a
  timeout that is due 100 ms from now.\<close>

definition scrollTo :: "props \<Rightarrow> lib \<Rightarrow> highlight \<Rightarrow> state \<Rightarrow> result" where
  "scrollTo P L h s =
    (let boundingRect = sp_boundingRect (hl_position h);
         pageNumber = scaled_pageNumber boundingRect
     in case viewerRef s of
          None \<Rightarrow> Inl (TypeError, s)
        | Some v \<Rightarrow>
           (let s1 = s\<lparr>scrollListenerAttached := False\<rparr>
            in case getPageView v (int pageNumber - 1) of
                 None \<Rightarrow> Inl (TypeError, s1)
               | Some pv \<Rightarrow>
                  (let pageViewport = pv_viewport pv;
                       scrollMargin = 10;
                       destArray =
                         convertToPdfPoint L pageViewport 0
                           (rect_top (scaledToViewport L boundingRect pageViewport
                               (usePdfCoordinates (hl_position h))) - scrollMargin) @ [0];
                       v1 = v\<lparr>scrollPageIntoViewCalls := scrollPageIntoViewCalls v @
                              [\<lparr>sr_pageNumber = pageNumber, sr_destArray = destArray\<rparr>]\<rparr>
                   in case renderHighlightLayers P L
                             (s1\<lparr>viewerRef := Some v1,
                                 scrolledToHighlightIdRef := Some (hl_id h)\<rparr>) of
                        Inl e \<Rightarrow> Inl e
                      | Inr s3 \<Rightarrow> Inr (s3\<lparr>timeouts := timeouts s3 @ [now s3 + 100]\<rparr>))))"

text \<open>The callback of that timeout (lines 213-215).\<close>

definition timeoutCallback :: "state \<Rightarrow> result" where
  "timeoutCallback s =
    (case viewerRef s of
       None \<Rightarrow> Inl (TypeError, s)
     | Some v \<Rightarrow> Inr (s\<lparr>scrollListenerAttached := True\<rparr>))"

text \<open>
  Modelled from the spec: \<^verbatim>\<open>debounce\<close> of lodash, which line 318 applies to
  \<^verbatim>\<open>afterSelection\<close> with a wait of 100, is not part of the sources. The spec: "overlapping
  rapid events collapse to the last call after a quiet period". A call of the debounced
  function (re)starts a timer that is due 100 ms later; the log notes the call (newest
  entry first).
\<close>

definition debouncedAfterSelection :: "state \<Rightarrow> state" where
  "debouncedAfterSelection s =
    s\<lparr>debounceTimer := Some (now s + 100),
      debounceLog := Called (now s) # debounceLog s\<rparr>"

text \<open>\<^verbatim>\<open>onSelectionChange\<close> (lines 223-247). The event carries what
  \<^verbatim>\<open>getWindow(container).getSelection()\<close> returns and the test \<^verbatim>\<open>container.contains\<close>.\<close>

definition onSelectionChange :: "selection_change \<Rightarrow> state \<Rightarrow> state" where
  "onSelectionChange ev s =
    (case getSelection ev of
       None \<Rightarrow> s
     | Some sel \<Rightarrow>
        (let newRange = (if rangeCount sel > 0 then Some (getRangeAt0 sel) else None)
         in if isCollapsed sel then s\<lparr>isCollapsedRef := True\<rparr>
            else
              (case newRange of
                 None \<Rightarrow> s
               | Some r \<Rightarrow>
                  (case containerNodeRef s of
                     None \<Rightarrow> s
                   | Some c \<Rightarrow>
                      if \<not> containerContains ev (commonAncestorContainer r) then s
                      else debouncedAfterSelection
                             (s\<lparr>isCollapsedRef := False, rangeRef := Some r\<rparr>)))))"

text \<open>\<^verbatim>\<open>onScroll\<close> (lines 249-253); the call of the prop \<^verbatim>\<open>onScrollChange\<close> is counted.\<close>

definition onScroll :: "props \<Rightarrow> lib \<Rightarrow> state \<Rightarrow> result" where
  "onScroll P L s =
    renderHighlightLayers P L
      (s\<lparr>scrollChangeCalls := Suc (scrollChangeCalls s), scrolledToHighlightIdRef := None\<rparr>)"

text \<open>\<^verbatim>\<open>onMouseDown\<close> (lines 255-264).\<close>

definition onMouseDown :: "props \<Rightarrow> lib \<Rightarrow> pointer_event \<Rightarrow> state \<Rightarrow> result" where
  "onMouseDown P L ev s =
    (if \<not> targetIsHTMLElement ev \<or> targetInTipContainer ev then Inr s
     else hideTipAndGhostHighlight P L s)"

text \<open>\<^verbatim>\<open>handleKeyDown\<close> (lines 266-272): the call of \<^verbatim>\<open>hideTipAndGhostHighlight\<close> is
  commented out in the source.\<close>

definition handleKeyDown :: "props \<Rightarrow> lib \<Rightarrow> string \<Rightarrow> state \<Rightarrow> result" where
  "handleKeyDown P L code s =
    (if code = ''Escape''
     then renderHighlightLayers P L (s\<lparr>consoleLog := consoleLog s @ [''Escape!'']\<rparr>)
     else Inr s)"

text \<open>\<^verbatim>\<open>afterSelection\<close> (lines 274-316). The call of the prop
  \<^verbatim>\<open>onSelectionFinished\<close> is logged with its four arguments (newest call first).\<close>

definition afterSelection :: "props \<Rightarrow> lib \<Rightarrow> state \<Rightarrow> state" where
  "afterSelection P L s =
    (case rangeRef s of
       None \<Rightarrow> s
     | Some r \<Rightarrow>
        if isCollapsedRef s then s
        else
          (case getPagesFromRange L r of
             None \<Rightarrow> s
           | Some pages \<Rightarrow>
              if length pages = 0 then s
              else
                (let rects = getClientRects L r pages
                 in if length rects = 0 then s
                    else
                      (let boundingRect = getBoundingRect L rects;
                           viewportPosition =
                             \<lparr>vp_boundingRect = boundingRect, vp_rects = rects\<rparr>;
                           content =
                             \<lparr>content_text = Some (range_toString r), content_image = None\<rparr>;
                           scaledPosition =
                             viewportPositionToScaled L viewportPosition (viewerRef s)
                       in s\<lparr>tipPosition := Some viewportPosition,
                            tipChildren :=
                              onSelectionFinished P scaledPosition content
                                HideTipAndGhostHighlight
                                (TransformSelection content scaledPosition),
                            selectionFinishedCalls :=
                              (scaledPosition, content, HideTipAndGhostHighlight,
                               TransformSelection content scaledPosition)
                              # selectionFinishedCalls s\<rparr>))))"

text \<open>The \<^verbatim>\<open>afterSelection\<close> prop given to \<^verbatim>\<open>MouseSelectionRenderer\<close> (lines 396-418) and
  its \<^verbatim>\<open>onChange\<close> prop (lines 391-393).\<close>

definition areaAfterSelection ::
  "props \<Rightarrow> viewport_position \<Rightarrow> scaled_position \<Rightarrow> string \<Rightarrow> state \<Rightarrow> state" where
  "areaAfterSelection P viewportPosition scaledPosition img s =
    s\<lparr>tipPosition := Some viewportPosition,
      tipChildren :=
        onSelectionFinished P scaledPosition
          \<lparr>content_text = None, content_image = Some img\<rparr>
          HideTipAndGhostHighlight (TransformAreaSelection img scaledPosition),
      selectionFinishedCalls :=
        (scaledPosition, \<lparr>content_text = None, content_image = Some img\<rparr>,
         HideTipAndGhostHighlight, TransformAreaSelection img scaledPosition)
        # selectionFinishedCalls s\<rparr>"

definition areaOnChange :: "bool \<Rightarrow> state \<Rightarrow> state" where
  "areaOnChange isVisible s = s\<lparr>isAreaSelectionInProgressRef := isVisible\<rparr>"

text \<open>Running one of the closures handed to \<^verbatim>\<open>onSelectionFinished\<close>: lines 175-181,
  307-313 and 408-415 (the call of \<^verbatim>\<open>resetSelection\<close> is counted).\<close>

definition applyContinuation :: "props \<Rightarrow> lib \<Rightarrow> continuation \<Rightarrow> state \<Rightarrow> result" where
  "applyContinuation P L k s =
    (case k of
       HideTipAndGhostHighlight \<Rightarrow> hideTipAndGhostHighlight P L s
     | TransformSelection content scaledPosition \<Rightarrow>
         renderHighlightLayers P L
           (s\<lparr>ghostHighlightRef :=
                Some \<lparr>gh_content = content, gh_position = scaledPosition\<rparr>\<rparr>)
     | TransformAreaSelection img scaledPosition \<Rightarrow>
         renderHighlightLayers P L
           (s\<lparr>ghostHighlightRef :=
                Some \<lparr>gh_content = \<lparr>content_text = None, content_image = Some img\<rparr>,
                      gh_position = scaledPosition\<rparr>,
              resetSelectionCalls := Suc (resetSelectionCalls s)\<rparr>))"

text \<open>The effect of lines 140-143 when the prop \<^verbatim>\<open>highlights\<close> changes.\<close>

definition highlightsEffect :: "props \<Rightarrow> lib \<Rightarrow> highlight list \<Rightarrow> state \<Rightarrow> result" where
  "highlightsEffect P L highlights s =
    renderHighlightLayers P L (s\<lparr>highlightsRef := highlights\<rparr>)"

section \<open>Timers and events\<close>

text \<open>
  Time is counted in milliseconds. When time has passed, the debounced function invokes
  \<^verbatim>\<open>afterSelection\<close> if its timer is due (the log notes the invocation), and every due
  timeout of \<^verbatim>\<open>scrollTo\<close> runs its callback. A timer never fires before it is due.
\<close>

definition fireDebounce :: "props \<Rightarrow> lib \<Rightarrow> state \<Rightarrow> state" where
  "fireDebounce P L s =
    (case debounceTimer s of
       None \<Rightarrow> s
     | Some d \<Rightarrow>
        if d \<le> now s
        then afterSelection P L
               (s\<lparr>debounceTimer := None, debounceLog := Invoked (now s) # debounceLog s\<rparr>)
        else s)"

definition fireTimeouts :: "state \<Rightarrow> state" where
  "fireTimeouts s =
    foldl (\<lambda>s1 d. stateOf (timeoutCallback s1))
      (s\<lparr>timeouts := filter (\<lambda>d. \<not> d \<le> now s) (timeouts s)\<rparr>)
      (filter (\<lambda>d. d \<le> now s) (timeouts s))"

definition wait :: "props \<Rightarrow> lib \<Rightarrow> nat \<Rightarrow> state \<Rightarrow> state" where
  "wait P L n s = fireTimeouts (fireDebounce P L (s\<lparr>now := now s + n\<rparr>))"

text \<open>
  The events the component reacts to: the listeners it registers (selectionchange,
  keydown, scroll, pointerdown, textlayerrendered), the functions it hands to its caller
  and to its children (\<^verbatim>\<open>scrollTo\<close>, \<^verbatim>\<open>showTip\<close>, \<^verbatim>\<open>setTip\<close>, the continuations, the
  props of the area selection), a change of the prop \<^verbatim>\<open>highlights\<close>, the passing of time,
  and changes PDF.js and the browser make to the page views and to the DOM. Setting the
  scale of the viewer (\<^verbatim>\<open>handleScaleValue\<close>) touches none of the refs; it shows only in what
  PDF.js then does to the page views.
\<close>

datatype event =
    SelectionChange selection_change
  | Scroll
  | PointerDown pointer_event
  | KeyDown string
  | Wait nat
  | CallScrollTo highlight
  | CallShowTip tip
  | CallSetTip "tip option"
  | CallContinuation continuation
  | AreaOnChange bool
  | AreaAfterSelection viewport_position scaled_position string
  | HighlightsChanged "highlight list"
  | TextLayerRendered
  | Environment "nat \<Rightarrow> page_view option" dom_state

text \<open>A handler that throws leaves the state it had reached; the next event finds it.
  A selectionchange event is noted in the log before its handler runs.\<close>

definition step :: "props \<Rightarrow> lib \<Rightarrow> event \<Rightarrow> state \<Rightarrow> state" where
  "step P L ev s =
    (case ev of
       SelectionChange sc \<Rightarrow>
         onSelectionChange sc (s\<lparr>debounceLog := Handled (now s) # debounceLog s\<rparr>)
     | Scroll \<Rightarrow> (if scrollListenerAttached s then stateOf (onScroll P L s) else s)
     | PointerDown pe \<Rightarrow> stateOf (onMouseDown P L pe s)
     | KeyDown code \<Rightarrow> stateOf (handleKeyDown P L code s)
     | Wait n \<Rightarrow> wait P L n s
     | CallScrollTo h \<Rightarrow> stateOf (scrollTo P L h s)
     | CallShowTip t \<Rightarrow> showTip t s
     | CallSetTip t \<Rightarrow> s\<lparr>tipState := t\<rparr>
     | CallContinuation k \<Rightarrow> stateOf (applyContinuation P L k s)
     | AreaOnChange isVisible \<Rightarrow> areaOnChange isVisible s
     | AreaAfterSelection viewportPosition scaledPosition img \<Rightarrow>
         areaAfterSelection P viewportPosition scaledPosition img s
     | HighlightsChanged highlights \<Rightarrow> stateOf (highlightsEffect P L highlights s)
     | TextLayerRendered \<Rightarrow> stateOf (renderHighlightLayers P L s)
     | Environment pvs d \<Rightarrow>
         s\<lparr>viewerRef := map_option (\<lambda>v. v\<lparr>pageViews := pvs\<rparr>) (viewerRef s),
           domState := d\<rparr>)"

definition run :: "props \<Rightarrow> lib \<Rightarrow> event list \<Rightarrow> state \<Rightarrow> state" where
  "run P L evs s = foldl (\<lambda>s1 ev. step P L ev s1) s evs"

text \<open>The state after mounting (the initial values of lines 78-100, and the viewer the
  mount effect creates unless the container is missing).\<close>

definition initialState ::
  "highlight list \<Rightarrow> element option \<Rightarrow> viewer option \<Rightarrow> dom_state \<Rightarrow> state" where
  "initialState highlights containerNode v d =
    \<lparr>highlightsRef = highlights,
      ghostHighlightRef = None,
      isCollapsedRef = True,
      rangeRef = None,
      scrolledToHighlightIdRef = None,
      isAreaSelectionInProgressRef = False,
      tipState = None,
      tipPosition = None,
      tipChildren = None,
      containerNodeRef = containerNode,
      highlightRootsRef = (\<lambda>page. None),
      viewerRef = v,
      scrollListenerAttached = False,
      domState = d,
      rendered = (\<lambda>r. None),
      nextRoot = 0,
      now = 0,
      debounceTimer = None,
      timeouts = [],
      debounceLog = [],
      selectionFinishedCalls = [],
      scrollChangeCalls = 0,
      resetSelectionCalls = 0,
      consoleLog = []\<rparr>"


section \<open>Helpers that are not part of the sources\<close>

text \<open>
  Modelled from the spec: \<^verbatim>\<open>getBoundingRect\<close> of \<^verbatim>\<open>../lib/get-bounding-rect\<close> is not part
  of the sources. The spec: a rectangle produced from a multi-node DOM selection "is first
  reduced to one bounding rectangle via min/max over all constituent client rects". The
  page number is the one of the first rectangle (the selection lies on one page); the
  spec says nothing about an empty list, for which \<^verbatim>\<open>afterSelection\<close> never calls it.
\<close>

definition getBoundingRect_minmax :: "ltwhp list \<Rightarrow> ltwhp" where
  "getBoundingRect_minmax rects =
    (case rects of
       [] \<Rightarrow> \<lparr>rect_left = 0, rect_top = 0, rect_width = 0, rect_height = 0,
              rect_pageNumber = None\<rparr>
     | r # rs \<Rightarrow>
        (let X0 = foldl min (rect_left r) (map rect_left rs);
             Y0 = foldl min (rect_top r) (map rect_top rs);
             X1 = foldl max (rect_left r + rect_width r)
                    (map (\<lambda>q. rect_left q + rect_width q) rs);
             Y1 = foldl max (rect_top r + rect_height r)
                    (map (\<lambda>q. rect_top q + rect_height q) rs)
         in \<lparr>rect_left = X0, rect_top = Y0, rect_width = X1 - X0, rect_height = Y1 - Y0,
              rect_pageNumber = rect_pageNumber r\<rparr>))"

definition covers :: "ltwhp \<Rightarrow> ltwhp \<Rightarrow> bool" where
  "covers b q =
    (rect_left b \<le> rect_left q \<and> rect_top b \<le> rect_top q \<and>
     rect_left q + rect_width q \<le> rect_left b + rect_width b \<and>
     rect_top q + rect_height q \<le> rect_top b + rect_height b)"

text \<open>
  Modelled from the spec: \<^verbatim>\<open>findOrCreateContainerLayer\<close> of \<^verbatim>\<open>../lib/pdfjs-dom\<close> is not
  part of the sources. The spec: the renderer recreates "the container lazily when the
  page becomes visible again". The layer with the class name inside the element is
  returned when there is one; otherwise a new element is appended to the element, so
  it is attached to the document exactly when the element is.
\<close>

definition findOrCreateContainerLayer_dom ::
  "element \<Rightarrow> string \<Rightarrow> dom_state \<Rightarrow> element \<times> dom_state" where
  "findOrCreateContainerLayer_dom parent className d =
    (case layerOf d parent className of
       Some layer \<Rightarrow> (layer, d)
     | None \<Rightarrow>
        (nextElement d,
         d\<lparr>isConnected := (isConnected d)(nextElement d := isConnected d parent),
           layerOf := (layerOf d)(parent := (layerOf d parent)(className \<mapsto> nextElement d)),
           nextElement := Suc (nextElement d)\<rparr>))"

text \<open>The helpers with \<^verbatim>\<open>findOrCreateContainerLayer\<close> as modelled above.\<close>

definition withDom :: "lib \<Rightarrow> lib" where
  "withDom L = L\<lparr>findOrCreateContainerLayer := findOrCreateContainerLayer_dom\<rparr>"

section \<open>Predicates of the claims\<close>

text \<open>Two states agree on everything but the highlight roots, what the roots have
  rendered, and the DOM.\<close>

definition frameEq :: "state \<Rightarrow> state \<Rightarrow> bool" where
  "frameEq s s' =
    (highlightsRef s' = highlightsRef s \<and> ghostHighlightRef s' = ghostHighlightRef s \<and>
     isCollapsedRef s' = isCollapsedRef s \<and> rangeRef s' = rangeRef s \<and>
     scrolledToHighlightIdRef s' = scrolledToHighlightIdRef s \<and>
     isAreaSelectionInProgressRef s' = isAreaSelectionInProgressRef s \<and>
     tipState s' = tipState s \<and> tipPosition s' = tipPosition s \<and>
     tipChildren s' = tipChildren s \<and> containerNodeRef s' = containerNodeRef s \<and>
     viewerRef s' = viewerRef s \<and> scrollListenerAttached s' = scrollListenerAttached s \<and>
     now s' = now s \<and> debounceTimer s' = debounceTimer s \<and> timeouts s' = timeouts s \<and>
     debounceLog s' = debounceLog s \<and> selectionFinishedCalls s' = selectionFinishedCalls s \<and>
     scrollChangeCalls s' = scrollChangeCalls s \<and>
     resetSelectionCalls s' = resetSelectionCalls s \<and> consoleLog s' = consoleLog s)"

text \<open>The pages of the document in the order of the loop, and the loop as the sequence
  of its bodies.\<close>

definition documentPages :: "props \<Rightarrow> nat list" where
  "documentPages P = [1..<Suc (numPages P)]"

definition renderPagesSeq :: "lib \<Rightarrow> nat list \<Rightarrow> state \<Rightarrow> result" where
  "renderPagesSeq L pages s =
    foldl (\<lambda>r pageNumber. case r of Inl e \<Rightarrow> Inl e | Inr s1 \<Rightarrow> renderPage L pageNumber s1)
      (Inr s) pages"

text \<open>What a page shows: the element its highlight root has rendered.\<close>

definition pageLayer :: "state \<Rightarrow> nat \<Rightarrow> layer_element option" where
  "pageLayer s pageNumber =
    (case highlightRootsRef s pageNumber of
       None \<Rightarrow> None
     | Some highlightRoot \<Rightarrow> rendered s (reactRoot highlightRoot))"

text \<open>The roots and containers the component holds for the pages of the document were
  created before (\<^verbatim>\<open>createRoot\<close> and the DOM hand out new identities), and no two pages
  share a root.\<close>

definition rootsAllocated :: "props \<Rightarrow> state \<Rightarrow> bool" where
  "rootsAllocated P s =
    (\<forall>p \<in> set (documentPages P).
       case highlightRootsRef s p of
         None \<Rightarrow> True
       | Some hr \<Rightarrow>
           reactRoot hr < nextRoot s \<and> container hr < nextElement (domState s) \<and>
           (\<forall>q \<in> set (documentPages P).
              case highlightRootsRef s q of
                None \<Rightarrow> True
              | Some hr' \<Rightarrow> reactRoot hr' = reactRoot hr \<longrightarrow> q = p))"

text \<open>
  The log of the debounced function, newest entry first. \<open>pendingCall\<close> is the time of
  the newest call of the debounced function that no invocation has followed;
  \<open>debounced\<close> says that every invocation of \<^verbatim>\<open>afterSelection\<close> answers such a call
  made at least 100 ms before. \<open>pendingEvent\<close> and \<open>settled\<close> say the same of the
  selectionchange events themselves.
\<close>

fun pendingCall :: "debounce_entry list \<Rightarrow> nat option" where
  "pendingCall [] = None"
| "pendingCall (Called t # es) = Some t"
| "pendingCall (Invoked t # es) = None"
| "pendingCall (Handled t # es) = pendingCall es"

fun debounced :: "debounce_entry list \<Rightarrow> bool" where
  "debounced [] = True"
| "debounced (Invoked t # es) =
    ((case pendingCall es of None \<Rightarrow> False | Some c \<Rightarrow> c + 100 \<le> t) \<and> debounced es)"
| "debounced (Called t # es) = debounced es"
| "debounced (Handled t # es) = debounced es"

fun pendingEvent :: "debounce_entry list \<Rightarrow> nat option" where
  "pendingEvent [] = None"
| "pendingEvent (Handled t # es) = Some t"
| "pendingEvent (Invoked t # es) = None"
| "pendingEvent (Called t # es) = pendingEvent es"

fun settled :: "debounce_entry list \<Rightarrow> bool" where
  "settled [] = True"
| "settled (Invoked t # es) =
    ((case pendingEvent es of None \<Rightarrow> False | Some e \<Rightarrow> e + 100 \<le> t) \<and> settled es)"
| "settled (Called t # es) = settled es"
| "settled (Handled t # es) = settled es"


text \<open>The invariant of the debounce timer: a pending timer is due 100 ms after the
  newest call that no invocation has followed. Two states agree on the timer and its log.\<close>

definition timerInv :: "state \<Rightarrow> bool" where
  "timerInv s =
    (debounced (debounceLog s) \<and>
     (case debounceTimer s of
        None \<Rightarrow> True
      | Some d \<Rightarrow> (case pendingCall (debounceLog s) of None \<Rightarrow> False | Some c \<Rightarrow> d = c + 100)))"

definition sameDebounce :: "state \<Rightarrow> state \<Rightarrow> bool" where
  "sameDebounce s s' =
    (debounceLog s' = debounceLog s \<and> debounceTimer s' = debounceTimer s)"

text \<open>
  For the idempotence of rendering: a page has an attached root (the test of line 338),
  a page has a text layer (the test of line 147), and a page is rendered when it has
  one of the two. The invariant of the loop: the roots held for the pages of the list
  were created before and are pairwise different, and the container of a page without
  a text layer was created before.
\<close>

definition connectedRoot :: "state \<Rightarrow> nat \<Rightarrow> bool" where
  "connectedRoot s p =
    (case highlightRootsRef s p of
       None \<Rightarrow> False
     | Some hr \<Rightarrow> isConnected (domState s) (container hr))"

definition hasTextLayer :: "state \<Rightarrow> nat \<Rightarrow> bool" where
  "hasTextLayer s p =
    (case viewerRef s of
       None \<Rightarrow> False
     | Some v \<Rightarrow>
        (case getPageView v (int p - 1) of
           None \<Rightarrow> False
         | Some pv \<Rightarrow> textLayer pv \<noteq> None))"

definition activePage :: "state \<Rightarrow> nat \<Rightarrow> bool" where
  "activePage s p = (connectedRoot s p \<or> hasTextLayer s p)"

definition rootsInv :: "nat set \<Rightarrow> state \<Rightarrow> bool" where
  "rootsInv D s =
    (\<forall>p \<in> D. \<forall>hr. highlightRootsRef s p = Some hr \<longrightarrow>
       reactRoot hr < nextRoot s \<and>
       (\<not> hasTextLayer s p \<longrightarrow> container hr < nextElement (domState s)) \<and>
       (\<forall>q \<in> D. \<forall>hr'. highlightRootsRef s q = Some hr' \<and> reactRoot hr' = reactRoot hr
          \<longrightarrow> q = p))"

text \<open>What rendering the pages of a list does to a state: it changes only the roots,
  what they have rendered and the DOM; every rendered page of the list shows the layer
  element of the current refs; the other pages of the list keep their roots; roots of
  pages that are not rendered keep what they had rendered; the invariant holds again,
  and the same pages are rendered next time.\<close>

definition passPost :: "lib \<Rightarrow> nat set \<Rightarrow> nat list \<Rightarrow> state \<Rightarrow> state \<Rightarrow> bool" where
  "passPost L D ps s s' =
    (frameEq s s' \<and> nextRoot s \<le> nextRoot s' \<and>
     (\<forall>q. q \<notin> set ps \<longrightarrow> highlightRootsRef s' q = highlightRootsRef s q) \<and>
     (\<forall>p \<in> set ps. activePage s p \<longrightarrow> pageLayer s' p = Some (layerElement L s p)) \<and>
     (\<forall>p \<in> set ps. \<not> activePage s p \<longrightarrow> highlightRootsRef s' p = highlightRootsRef s p) \<and>
     (\<forall>r < nextRoot s.
        (\<forall>q \<in> set ps. activePage s q \<longrightarrow>
           (\<forall>hr. highlightRootsRef s q = Some hr \<longrightarrow> reactRoot hr \<noteq> r)) \<longrightarrow>
        rendered s' r = rendered s r) \<and>
     rootsInv D s' \<and>
     (\<forall>q \<in> D. activePage s' q = activePage s q))"

section \<open>Example values\<close>

definition exampleDom :: dom_state where
  "exampleDom =
    \<lparr>isConnected = (\<lambda>e. e = 0 \<or> e = 1), layerOf = (\<lambda>e c. None), nextElement = 10\<rparr>"

definition exampleViewer :: viewer where
  "exampleViewer =
    \<lparr>pageViews =
        (\<lambda>i. if i = 0
             then Some \<lparr>textLayer = Some \<lparr>textLayerDiv = 1\<rparr>,
                        pv_viewport = \<lparr>viewport_scale = 1, viewport_width = 600,
                                       viewport_height = 800\<rparr>\<rparr>
             else if i = 1
             then Some \<lparr>textLayer = None,
                        pv_viewport = \<lparr>viewport_scale = 1, viewport_width = 600,
                                       viewport_height = 800\<rparr>\<rparr>
             else None),
      scrollPageIntoViewCalls = []\<rparr>"

definition exampleRects :: "ltwhp list" where
  "exampleRects =
    [\<lparr>rect_left = 10, rect_top = 20, rect_width = 30, rect_height = 5,
      rect_pageNumber = Some 1\<rparr>,
     \<lparr>rect_left = 5, rect_top = 25, rect_width = 50, rect_height = 5,
      rect_pageNumber = Some 1\<rparr>]"

definition exampleToScaled :: "ltwhp \<Rightarrow> scaled" where
  "exampleToScaled r =
    \<lparr>x1 = rect_left r, y1 = rect_top r, x2 = rect_left r + rect_width r,
      y2 = rect_top r + rect_height r, scaled_width = 600, scaled_height = 800,
      scaled_pageNumber = 1\<rparr>"

definition exampleLib :: lib where
  "exampleLib =
    \<lparr>getPagesFromRange = (\<lambda>r. Some [\<lparr>page_node = 1, page_number = 1\<rparr>]),
      getClientRects = (\<lambda>r pages. exampleRects),
      getBoundingRect = getBoundingRect_minmax,
      viewportPositionToScaled =
        (\<lambda>vp v. \<lparr>sp_boundingRect = exampleToScaled (vp_boundingRect vp),
                  sp_rects = map exampleToScaled (vp_rects vp),
                  usePdfCoordinates = None\<rparr>),
      scaledToViewport =
        (\<lambda>sc vp flag. \<lparr>rect_left = x1 sc, rect_top = y1 sc, rect_width = x2 sc - x1 sc,
                        rect_height = y2 sc - y1 sc,
                        rect_pageNumber = Some (scaled_pageNumber sc)\<rparr>),
      convertToPdfPoint = (\<lambda>vp x y. [x, y]),
      groupHighlightsByPage = (\<lambda>items page. items),
      findOrCreateContainerLayer = findOrCreateContainerLayer_dom\<rparr>"

definition exampleProps :: props where
  "exampleProps =
    \<lparr>numPages = 2,
      onSelectionFinished =
        (\<lambda>position content hide transform. Some (ReactElement ''tip'' [hide, transform]))\<rparr>"

definition exampleState :: state where
  "exampleState = initialState [] (Some 0) (Some exampleViewer) exampleDom"

definition exampleRange :: range where
  "exampleRange = \<lparr>commonAncestorContainer = 1, range_toString = ''some text''\<rparr>"

definition exampleContent :: content where
  "exampleContent = \<lparr>content_text = Some ''some text'', content_image = None\<rparr>"

definition exampleViewportPosition :: viewport_position where
  "exampleViewportPosition =
    \<lparr>vp_boundingRect = getBoundingRect_minmax exampleRects, vp_rects = exampleRects\<rparr>"

definition exampleScaledPosition :: scaled_position where
  "exampleScaledPosition =
    viewportPositionToScaled exampleLib exampleViewportPosition (Some exampleViewer)"


definition exampleTip :: tip where
  "exampleTip =
    \<lparr>tip_highlight = \<lparr>vh_position = exampleViewportPosition\<rparr>,
      tip_content = TipElement (ReactElement ''comment'' [])\<rparr>"

text \<open>A finished selection that the user has committed as a ghost highlight: the tip
  is shown and the ghost highlight is held.\<close>

definition exampleFinished :: state where
  "exampleFinished =
    exampleState
      \<lparr>ghostHighlightRef :=
          Some \<lparr>gh_content = exampleContent, gh_position = exampleScaledPosition\<rparr>,
        isCollapsedRef := False,
        rangeRef := Some exampleRange,
        tipPosition := Some exampleViewportPosition,
        tipChildren := Some (ReactElement ''tip'' [])\<rparr>"

definition accepted :: selection_change where
  "accepted =
    \<lparr>getSelection = Some \<lparr>rangeCount = 1, isCollapsed = False, getRangeAt0 = exampleRange\<rparr>,
      containerContains = (\<lambda>e. True)\<rparr>"

definition outsideContainer :: selection_change where
  "outsideContainer =
    \<lparr>getSelection = Some \<lparr>rangeCount = 1, isCollapsed = False,
                           getRangeAt0 = \<lparr>commonAncestorContainer = 7,
                                          range_toString = ''text and more''\<rparr>\<rparr>,
      containerContains = (\<lambda>e. False)\<rparr>"

text \<open>A settled selection that \<^verbatim>\<open>afterSelection\<close> has not seen yet.\<close>

definition exampleSelecting :: state where
  "exampleSelecting = exampleState\<lparr>isCollapsedRef := False, rangeRef := Some exampleRange\<rparr>"

text \<open>Page 1 has a highlight root whose container (element 10, the highlight layer of the
  text layer of page 1) is attached to the document.\<close>

definition exampleAttached :: state where
  "exampleAttached =
    exampleState
      \<lparr>highlightRootsRef := (\<lambda>page. None)(1 \<mapsto> \<lparr>reactRoot = 0, container = 10\<rparr>),
        nextRoot := 1,
        domState :=
          \<lparr>isConnected = (\<lambda>e. e = 0 \<or> e = 1 \<or> e = 10),
            layerOf = (\<lambda>e c. if e = 1 \<and> c = ''PdfHighlighter__highlight-layer''
                               then Some 10 else None),
            nextElement = 11\<rparr>\<rparr>"

text \<open>PDF.js has unloaded page 1 and rendered it again: the old container (element 10)
  is detached, and the page view has a new text layer (element 3).\<close>

definition exampleStale :: state where
  "exampleStale =
    exampleAttached
      \<lparr>viewerRef :=
          Some (exampleViewer
            \<lparr>pageViews :=
                (pageViews exampleViewer)
                  (0 \<mapsto> \<lparr>textLayer = Some \<lparr>textLayerDiv = 3\<rparr>,
                          pv_viewport = \<lparr>viewport_scale = 2, viewport_width = 1200,
                                         viewport_height = 1600\<rparr>\<rparr>)\<rparr>),
        domState :=
          \<lparr>isConnected = (\<lambda>e. e = 0 \<or> e = 3),
            layerOf = (\<lambda>e c. if e = 1 \<and> c = ''PdfHighlighter__highlight-layer''
                               then Some 10 else None),
            nextElement = 11\<rparr>\<rparr>"


section \<open>The frame of rendering\<close>

declare renderPagesFrom.simps [simp del]

lemma frameEq_refl: "frameEq s s"
  by (simp add: frameEq_def)

lemma frameEq_trans: "frameEq s s1 \<Longrightarrow> frameEq s1 s2 \<Longrightarrow> frameEq s s2"
  by (simp add: frameEq_def)

lemma renderPage_frame: "frameEq s (stateOf (renderPage L p s))"
  by (auto simp add: frameEq_def renderPage_def stateOf_def renderHighlightLayer_def
      findOrCreateHighlightLayer_def split: option.splits sum.splits prod.splits)

lemma renderPagesFrom_frame: "frameEq s (stateOf (renderPagesFrom P L k s))"
proof (induction P L k s rule: renderPagesFrom.induct)
  case (1 P L pageNumber s)
  show ?case
  proof (cases "pageNumber \<le> numPages P")
    case False
    then show ?thesis
      by (simp add: renderPagesFrom.simps stateOf_def frameEq_refl)
  next
    case True
    show ?thesis
    proof (cases "renderPage L pageNumber s")
      case (Inl e)
      with True renderPage_frame[of s L pageNumber] show ?thesis
        by (simp add: renderPagesFrom.simps[of P L pageNumber s] stateOf_def)
    next
      case (Inr s1)
      with True 1 renderPage_frame[of s L pageNumber] show ?thesis
        by (auto simp add: renderPagesFrom.simps[of P L pageNumber s] stateOf_def
            intro: frameEq_trans)
    qed
  qed
qed

lemma renderHighlightLayers_frame: "frameEq s (stateOf (renderHighlightLayers P L s))"
  by (simp add: renderHighlightLayers_def renderPagesFrom_frame)

lemmas renderHighlightLayers_fields = renderHighlightLayers_frame[unfolded frameEq_def]

lemma hideTipAndGhostHighlight_clears:
  "tipPosition (stateOf (hideTipAndGhostHighlight P L s)) = None
    \<and> tipChildren (stateOf (hideTipAndGhostHighlight P L s)) = None
    \<and> ghostHighlightRef (stateOf (hideTipAndGhostHighlight P L s)) = None
    \<and> tipState (stateOf (hideTipAndGhostHighlight P L s)) = None"
  by (simp add: hideTipAndGhostHighlight_def renderHighlightLayers_fields)

lemma renderHighlightLayers_Inr: "renderHighlightLayers P L s = Inr s' \<Longrightarrow> frameEq s s'"
  using renderHighlightLayers_frame[of s P L] by (simp add: stateOf_def)

lemma renderHighlightLayers_Inl: "renderHighlightLayers P L s = Inl (e, s') \<Longrightarrow> frameEq s s'"
  using renderHighlightLayers_frame[of s P L] by (simp add: stateOf_def)







lemma afterSelection_keeps:
  "scrollListenerAttached (afterSelection P L s) = scrollListenerAttached s
    \<and> timeouts (afterSelection P L s) = timeouts s
    \<and> now (afterSelection P L s) = now s
    \<and> viewerRef (afterSelection P L s) = viewerRef s
    \<and> scrolledToHighlightIdRef (afterSelection P L s) = scrolledToHighlightIdRef s
    \<and> ghostHighlightRef (afterSelection P L s) = ghostHighlightRef s
    \<and> debounceTimer (afterSelection P L s) = debounceTimer s
    \<and> debounceLog (afterSelection P L s) = debounceLog s"
  by (simp add: afterSelection_def Let_def split: option.splits)








lemma renderPagesSeq_Inl:
  "foldl (\<lambda>r pageNumber. case r of Inl e \<Rightarrow> Inl e | Inr s1 \<Rightarrow> renderPage L pageNumber s1)
      (Inl e) pages = Inl e"
  by (induction pages) simp_all

lemma renderPagesSeq_Cons:
  "renderPagesSeq L (p # pages) s =
    (case renderPage L p s of Inl e \<Rightarrow> Inl e | Inr s1 \<Rightarrow> renderPagesSeq L pages s1)"
  by (simp add: renderPagesSeq_def renderPagesSeq_Inl split: sum.splits)

lemma renderPagesFrom_seq:
  "renderPagesFrom P L k s = renderPagesSeq L [k..<Suc (numPages P)] s"
proof (induction P L k s rule: renderPagesFrom.induct)
  case (1 P L pageNumber s)
  show ?case
  proof (cases "pageNumber \<le> numPages P")
    case False
    then show ?thesis by (simp add: renderPagesFrom.simps renderPagesSeq_def)
  next
    case True
    then have "[pageNumber..<Suc (numPages P)] = pageNumber # [pageNumber + 1..<Suc (numPages P)]"
      by (simp add: upt_conv_Cons)
    with True 1 show ?thesis
      by (simp add: renderPagesFrom.simps[of P L pageNumber s] renderPagesSeq_Cons
          split: sum.splits)
  qed
qed

lemma Min_insert_min:
  "finite A \<Longrightarrow> Min (insert (min a b) A) = min b (Min (insert (a::real) A))"
  by (cases "A = {}") (simp_all add: min.commute min.left_commute min.assoc)

lemma Max_insert_max:
  "finite A \<Longrightarrow> Max (insert (max a b) A) = max b (Max (insert (a::real) A))"
  by (cases "A = {}") (simp_all add: max.commute max.left_commute max.assoc)

lemma foldl_min_Min: "foldl min (a::real) xs = Min (insert a (set xs))"
proof (induction xs arbitrary: a)
  case Nil
  show ?case by simp
next
  case (Cons x xs)
  have "foldl min a (x # xs) = Min (insert (min a x) (set xs))"
    using Cons by simp
  also have "\<dots> = min x (Min (insert a (set xs)))"
    by (simp add: Min_insert_min)
  also have "\<dots> = Min (insert x (insert a (set xs)))"
    by simp
  also have "insert x (insert a (set xs)) = insert a (set (x # xs))"
    by auto
  finally show ?case .
qed

lemma foldl_max_Max: "foldl max (a::real) xs = Max (insert a (set xs))"
proof (induction xs arbitrary: a)
  case Nil
  show ?case by simp
next
  case (Cons x xs)
  have "foldl max a (x # xs) = Max (insert (max a x) (set xs))"
    using Cons by simp
  also have "\<dots> = max x (Max (insert a (set xs)))"
    by (simp add: Max_insert_max)
  also have "\<dots> = Max (insert x (insert a (set xs)))"
    by simp
  also have "insert x (insert a (set xs)) = insert a (set (x # xs))"
    by auto
  finally show ?case .
qed

lemma getBoundingRect_minmax_sides:
  assumes "rects \<noteq> []"
  shows "rect_left (getBoundingRect_minmax rects) = Min (rect_left ` set rects)"
    and "rect_top (getBoundingRect_minmax rects) = Min (rect_top ` set rects)"
    and "rect_left (getBoundingRect_minmax rects) + rect_width (getBoundingRect_minmax rects) =
      Max ((\<lambda>q. rect_left q + rect_width q) ` set rects)"
    and "rect_top (getBoundingRect_minmax rects) + rect_height (getBoundingRect_minmax rects) =
      Max ((\<lambda>q. rect_top q + rect_height q) ` set rects)"
  using assms
  by (cases rects; simp add: getBoundingRect_minmax_def Let_def foldl_min_Min foldl_max_Max)+

lemma getBoundingRect_minmax_covers:
  assumes "q \<in> set rects"
  shows "covers (getBoundingRect_minmax rects) q"
proof -
  from assms have ne: "rects \<noteq> []" by auto
  note sides = getBoundingRect_minmax_sides[OF ne]
  from assms have "Min (rect_left ` set rects) \<le> rect_left q"
    and "Min (rect_top ` set rects) \<le> rect_top q"
    and "rect_left q + rect_width q \<le> Max ((\<lambda>q. rect_left q + rect_width q) ` set rects)"
    and "rect_top q + rect_height q \<le> Max ((\<lambda>q. rect_top q + rect_height q) ` set rects)"
    by simp_all
  then show ?thesis
    unfolding covers_def sides(1,2)[symmetric] sides(3,4)[symmetric] by simp
qed

lemma sameDebounce_timerInv: "sameDebounce s s' \<Longrightarrow> timerInv s \<Longrightarrow> timerInv s'"
  by (simp add: sameDebounce_def timerInv_def split: option.splits)

lemma frameEq_sameDebounce: "frameEq s s' \<Longrightarrow> sameDebounce s s'"
  by (simp add: frameEq_def sameDebounce_def)

lemma timeoutCallbacks_debounce:
  "sameDebounce s (foldl (\<lambda>s1 d. stateOf (timeoutCallback s1)) s ds)"
proof (induction ds arbitrary: s)
  case Nil
  show ?case by (simp add: sameDebounce_def)
next
  case (Cons d ds)
  have "sameDebounce s (stateOf (timeoutCallback s))"
    by (simp add: sameDebounce_def timeoutCallback_def stateOf_def split: option.splits)
  with Cons[of "stateOf (timeoutCallback s)"] show ?case
    by (simp add: sameDebounce_def)
qed

lemma scrollTo_debounce: "sameDebounce s (stateOf (scrollTo P L h s))"
  by (auto simp add: scrollTo_def Let_def stateOf_def frameEq_def sameDebounce_def
      split: option.splits sum.splits
      dest!: renderHighlightLayers_Inr renderHighlightLayers_Inl)

lemma applyContinuation_debounce: "sameDebounce s (stateOf (applyContinuation P L k s))"
  by (cases k)
    (simp_all add: applyContinuation_def hideTipAndGhostHighlight_def sameDebounce_def
      renderHighlightLayers_fields)

lemma onSelectionChange_timerInv:
  assumes "timerInv s"
  shows "timerInv (onSelectionChange sc (s\<lparr>debounceLog := Handled (now s) # debounceLog s\<rparr>))"
  using assms
  by (simp add: onSelectionChange_def debouncedAfterSelection_def timerInv_def Let_def
      split: option.splits)

lemma wait_timerInv:
  assumes "timerInv s"
  shows "timerInv (wait P L n s)"
proof -
  have "timerInv (fireDebounce P L (s\<lparr>now := now s + n\<rparr>))"
    using assms
    by (auto simp add: fireDebounce_def timerInv_def afterSelection_keeps
        split: option.splits)
  moreover have "sameDebounce (fireDebounce P L (s\<lparr>now := now s + n\<rparr>)) (wait P L n s)"
    using timeoutCallbacks_debounce[of
        "(fireDebounce P L (s\<lparr>now := now s + n\<rparr>))
          \<lparr>timeouts := filter (\<lambda>d. \<not> d \<le> now (fireDebounce P L (s\<lparr>now := now s + n\<rparr>)))
              (timeouts (fireDebounce P L (s\<lparr>now := now s + n\<rparr>)))\<rparr>"]
    by (simp add: wait_def fireTimeouts_def sameDebounce_def)
  ultimately show ?thesis by (rule sameDebounce_timerInv[rotated])
qed

lemma step_timerInv:
  assumes "timerInv s"
  shows "timerInv (step P L ev s)"
proof (cases ev)
  case (SelectionChange sc)
  with assms show ?thesis by (simp add: step_def onSelectionChange_timerInv)
next
  case (Wait n)
  with assms show ?thesis by (simp add: step_def wait_timerInv)
next
  case Scroll
  have "sameDebounce s (step P L Scroll s)"
    by (simp add: step_def onScroll_def sameDebounce_def renderHighlightLayers_fields)
  with assms Scroll show ?thesis by (simp add: sameDebounce_timerInv)
next
  case (PointerDown pe)
  have "sameDebounce s (step P L (PointerDown pe) s)"
    by (simp add: step_def onMouseDown_def hideTipAndGhostHighlight_def sameDebounce_def
        renderHighlightLayers_fields stateOf_def[of "Inr s"])
  with assms PointerDown show ?thesis by (simp add: sameDebounce_timerInv)
next
  case (KeyDown code)
  have "sameDebounce s (step P L (KeyDown code) s)"
    by (simp add: step_def handleKeyDown_def sameDebounce_def
        renderHighlightLayers_fields stateOf_def[of "Inr s"])
  with assms KeyDown show ?thesis by (simp add: sameDebounce_timerInv)
next
  case (CallScrollTo h)
  with assms scrollTo_debounce[of s P L h] show ?thesis
    by (simp add: step_def sameDebounce_timerInv)
next
  case (CallShowTip t)
  have "sameDebounce s (step P L (CallShowTip t) s)"
    by (simp add: step_def showTip_def sameDebounce_def split: tip_body.splits)
  with assms CallShowTip show ?thesis by (simp add: sameDebounce_timerInv)
next
  case (CallSetTip t)
  have "sameDebounce s (step P L (CallSetTip t) s)"
    by (simp add: step_def sameDebounce_def)
  with assms CallSetTip show ?thesis by (simp add: sameDebounce_timerInv)
next
  case (CallContinuation k)
  with assms applyContinuation_debounce[of s P L k] show ?thesis
    by (simp add: step_def sameDebounce_timerInv)
next
  case (AreaOnChange b)
  have "sameDebounce s (step P L (AreaOnChange b) s)"
    by (simp add: step_def sameDebounce_def areaOnChange_def)
  with assms AreaOnChange show ?thesis by (simp add: sameDebounce_timerInv)
next
  case (AreaAfterSelection vp sp img)
  have "sameDebounce s (step P L (AreaAfterSelection vp sp img) s)"
    by (simp add: step_def sameDebounce_def areaAfterSelection_def)
  with assms AreaAfterSelection show ?thesis by (simp add: sameDebounce_timerInv)
next
  case (HighlightsChanged hs)
  have "sameDebounce s (step P L (HighlightsChanged hs) s)"
    by (simp add: step_def sameDebounce_def highlightsEffect_def renderHighlightLayers_fields)
  with assms HighlightsChanged show ?thesis by (simp add: sameDebounce_timerInv)
next
  case TextLayerRendered
  have "sameDebounce s (step P L TextLayerRendered s)"
    by (simp add: step_def sameDebounce_def renderHighlightLayers_fields)
  with assms TextLayerRendered show ?thesis by (simp add: sameDebounce_timerInv)
next
  case (Environment pvs d)
  have "sameDebounce s (step P L (Environment pvs d) s)"
    by (simp add: step_def sameDebounce_def)
  with assms Environment show ?thesis by (simp add: sameDebounce_timerInv)
qed

lemma run_timerInv: "timerInv s \<Longrightarrow> timerInv (run P L evs s)"
  unfolding run_def
  by (induction evs arbitrary: s) (simp_all add: step_timerInv)

lemma onSelectionChange_computes_nothing:
  "tipPosition (onSelectionChange sc s) = tipPosition s
    \<and> tipChildren (onSelectionChange sc s) = tipChildren s
    \<and> selectionFinishedCalls (onSelectionChange sc s) = selectionFinishedCalls s"
  by (simp add: onSelectionChange_def debouncedAfterSelection_def Let_def split: option.splits)

lemma onSelectionChange_timer:
  "debounceTimer (step P L (SelectionChange sc) s) =
      (if (case getSelection sc of
             None \<Rightarrow> False
           | Some sel \<Rightarrow>
               \<not> isCollapsed sel \<and> 0 < rangeCount sel \<and> containerNodeRef s \<noteq> None \<and>
               containerContains sc (commonAncestorContainer (getRangeAt0 sel)))
       then Some (now s + 100) else debounceTimer s)"
  by (simp add: step_def onSelectionChange_def debouncedAfterSelection_def Let_def
      split: option.splits)

section \<open>One pass of rendering\<close>

lemma layerElement_frame: "frameEq s s' \<Longrightarrow> layerElement L s' p = layerElement L s p"
  by (simp add: frameEq_def layerElement_def)

lemma findOrCreateContainerLayer_dom_frame:
  assumes "findOrCreateContainerLayer_dom parent c d = (layer, d')"
  shows "nextElement d \<le> nextElement d'"
    and "e < nextElement d \<Longrightarrow> isConnected d' e = isConnected d e"
  using assms
  by (auto simp add: findOrCreateContainerLayer_dom_def split: option.splits)

text \<open>The body of the loop with the DOM helper, in closed form.\<close>

lemma renderPage_connected:
  assumes "viewerRef s = Some v" and "highlightRootsRef s p = Some hr"
    and "isConnected (domState s) (container hr)"
  shows "renderPage L p s = Inr (s\<lparr>rendered := (rendered s)(reactRoot hr \<mapsto> layerElement L s p)\<rparr>)"
  using assms by (simp add: renderPage_def renderHighlightLayer_def)

lemma renderPage_skipped:
  assumes "viewerRef s = Some v" and "\<not> connectedRoot s p" and "\<not> hasTextLayer s p"
  shows "renderPage L p s = Inr s"
  using assms
  by (auto simp add: renderPage_def connectedRoot_def hasTextLayer_def
      findOrCreateHighlightLayer_def split: option.splits)

lemma renderPage_created:
  assumes "viewerRef s = Some v" and "\<not> connectedRoot s p" and "hasTextLayer s p"
    and "findOrCreateContainerLayer L = findOrCreateContainerLayer_dom"
  shows "\<exists>layer d. renderPage L p s =
      Inr (s\<lparr>domState := d, nextRoot := Suc (nextRoot s),
             highlightRootsRef := (highlightRootsRef s)
               (p \<mapsto> \<lparr>reactRoot = nextRoot s, container = layer\<rparr>),
             rendered := (rendered s)(nextRoot s \<mapsto> layerElement L s p)\<rparr>)
      \<and> nextElement (domState s) \<le> nextElement d
      \<and> (\<forall>e < nextElement (domState s). isConnected d e = isConnected (domState s) e)"
proof -
  from assms(1,3) obtain pv tlayer where pv: "getPageView v (int p - 1) = Some pv"
    and tl: "textLayer pv = Some tlayer"
    by (auto simp add: hasTextLayer_def split: option.splits)
  obtain layer d where ld: "findOrCreateContainerLayer_dom (textLayerDiv tlayer)
      ''PdfHighlighter__highlight-layer'' (domState s) = (layer, d)"
    by (cases "findOrCreateContainerLayer_dom (textLayerDiv tlayer)
      ''PdfHighlighter__highlight-layer'' (domState s)")
  have c: "(case highlightRootsRef s p of None \<Rightarrow> False
      | Some highlightRoot \<Rightarrow> isConnected (domState s) (container highlightRoot)) = False"
    using assms(2) by (simp add: connectedRoot_def)
  have "renderPage L p s =
      Inr (s\<lparr>domState := d, nextRoot := Suc (nextRoot s),
             highlightRootsRef := (highlightRootsRef s)
               (p \<mapsto> \<lparr>reactRoot = nextRoot s, container = layer\<rparr>),
             rendered := (rendered s)(nextRoot s \<mapsto> layerElement L s p)\<rparr>)"
    unfolding renderPage_def c
    using assms(1,4) pv tl ld
    by (simp add: findOrCreateHighlightLayer_def renderHighlightLayer_def layerElement_def)
  with findOrCreateContainerLayer_dom_frame[OF ld] show ?thesis by blast
qed

lemma passPost_Nil: "rootsInv D s \<Longrightarrow> passPost L D [] s s"
  by (simp add: passPost_def frameEq_refl)

lemma passPost_connected:
  assumes inv: "rootsInv D s" and hr: "highlightRootsRef s p = Some hr"
    and con: "isConnected (domState s) (container hr)"
  shows "passPost L D [p] s (s\<lparr>rendered := (rendered s)(reactRoot hr \<mapsto> layerElement L s p)\<rparr>)"
    (is "passPost L D [p] s ?s1")
proof -
  have inv1: "rootsInv D ?s1"
    using inv by (simp add: rootsInv_def hasTextLayer_def)
  have act: "activePage ?s1 q = activePage s q" for q
    by (simp add: activePage_def connectedRoot_def hasTextLayer_def split: option.splits)
  have lay: "pageLayer ?s1 p = Some (layerElement L s p)"
    using hr by (simp add: pageLayer_def)
  have ap: "activePage s p"
    using hr con by (simp add: activePage_def connectedRoot_def)
  have ren: "rendered ?s1 r = rendered s r" if "reactRoot hr \<noteq> r" for r
    using that by simp
  show ?thesis
    unfolding passPost_def
    using inv1 act lay ap ren hr by (simp add: frameEq_def)
qed

lemma passPost_skipped:
  assumes inv: "rootsInv D s" and "\<not> activePage s p"
  shows "passPost L D [p] s s"
  using assms by (simp add: passPost_def frameEq_refl)


lemma passPost_created:
  assumes inv: "rootsInv D s" and pD: "p \<in> D"
    and ncon: "\<not> connectedRoot s p" and tl: "hasTextLayer s p"
    and le: "nextElement (domState s) \<le> nextElement d"
    and same: "\<forall>e < nextElement (domState s). isConnected d e = isConnected (domState s) e"
  shows "passPost L D [p] s
      (s\<lparr>domState := d, nextRoot := Suc (nextRoot s),
         highlightRootsRef := (highlightRootsRef s)
           (p \<mapsto> \<lparr>reactRoot = nextRoot s, container = layer\<rparr>),
         rendered := (rendered s)(nextRoot s \<mapsto> layerElement L s p)\<rparr>)"
    (is "passPost L D [p] s ?s1")
proof -
  have tl1: "hasTextLayer ?s1 q = hasTextLayer s q" for q
    by (simp add: hasTextLayer_def)
  have inv1: "rootsInv D ?s1"
    unfolding rootsInv_def
  proof (intro ballI allI impI)
    fix x hr
    assume xD: "x \<in> D" and x: "highlightRootsRef ?s1 x = Some hr"
    show "reactRoot hr < nextRoot ?s1 \<and>
       (\<not> hasTextLayer ?s1 x \<longrightarrow> container hr < nextElement (domState ?s1)) \<and>
       (\<forall>q \<in> D. \<forall>hr'. highlightRootsRef ?s1 q = Some hr' \<and> reactRoot hr' = reactRoot hr
          \<longrightarrow> q = x)"
    proof (cases "x = p")
      case True
      with x have hr: "hr = \<lparr>reactRoot = nextRoot s, container = layer\<rparr>" by simp
      have F: "q = x" if "q \<in> D" "highlightRootsRef ?s1 q = Some hr'"
        "reactRoot hr' = reactRoot hr" for q hr'
      proof (rule ccontr)
        assume "q \<noteq> x"
        with True that(2) have "highlightRootsRef s q = Some hr'" by simp
        with inv that(1) have "reactRoot hr' < nextRoot s" by (simp add: rootsInv_def)
        moreover from that(3) hr have "reactRoot hr' = nextRoot s" by simp
        ultimately show False by simp
      qed
      have 1: "reactRoot hr < nextRoot ?s1" using hr by simp
      have 2: "hasTextLayer ?s1 x" using True tl by (simp add: tl1)
      from 1 2 F show ?thesis by blast
    next
      case False
      with x have old: "highlightRootsRef s x = Some hr" by simp
      from inv xD old have a: "reactRoot hr < nextRoot s"
        and b: "\<not> hasTextLayer s x \<longrightarrow> container hr < nextElement (domState s)"
        and c: "\<forall>q \<in> D. \<forall>hr'. highlightRootsRef s q = Some hr' \<and> reactRoot hr' = reactRoot hr
          \<longrightarrow> q = x"
        by (simp_all add: rootsInv_def)
      have F: "q = x" if "q \<in> D" "highlightRootsRef ?s1 q = Some hr'"
        "reactRoot hr' = reactRoot hr" for q hr'
      proof (cases "q = p")
        case True
        with that(2) have "reactRoot hr' = nextRoot s" by auto
        with that(3) a show ?thesis by simp
      next
        case False
        with that(2) have "highlightRootsRef s q = Some hr'" by simp
        with c that(1,3) show ?thesis by blast
      qed
      have 1: "reactRoot hr < nextRoot ?s1" using a by simp
      have 2: "\<not> hasTextLayer ?s1 x \<longrightarrow> container hr < nextElement (domState ?s1)"
        using b le by (auto simp add: tl1)
      from 1 2 F show ?thesis by blast
    qed
  qed
  have act: "activePage ?s1 q = activePage s q" if "q \<in> D" for q
  proof (cases "hasTextLayer s q")
    case True
    then show ?thesis by (simp add: activePage_def tl1)
  next
    case False
    with tl have qp: "q \<noteq> p" by auto
    have "connectedRoot ?s1 q = connectedRoot s q"
    proof (cases "highlightRootsRef s q")
      case None
      with qp show ?thesis by (simp add: connectedRoot_def)
    next
      case (Some hr)
      with inv that False have "container hr < nextElement (domState s)"
        by (simp add: rootsInv_def)
      with same Some qp show ?thesis by (simp add: connectedRoot_def)
    qed
    with False show ?thesis by (simp add: activePage_def tl1)
  qed
  have lay: "pageLayer ?s1 p = Some (layerElement L s p)"
    by (simp add: pageLayer_def)
  have fr: "frameEq s ?s1" by (simp add: frameEq_def)
  have ren: "rendered ?s1 r = rendered s r" if "r < nextRoot s" for r
    using that by simp
  have roots: "highlightRootsRef ?s1 q = highlightRootsRef s q" if "q \<noteq> p" for q
    using that by simp
  have nr: "nextRoot s \<le> nextRoot ?s1" by simp
  have ap: "activePage s p" using tl by (simp add: activePage_def)
  show ?thesis
    unfolding passPost_def
  proof (intro conjI)
    show "frameEq s ?s1" by (rule fr)
    show "nextRoot s \<le> nextRoot ?s1" by (rule nr)
    show "\<forall>q. q \<notin> set [p] \<longrightarrow> highlightRootsRef ?s1 q = highlightRootsRef s q"
      using roots by simp
    show "\<forall>p \<in> set [p]. activePage s p \<longrightarrow> pageLayer ?s1 p = Some (layerElement L s p)"
      using lay by simp
    show "\<forall>p \<in> set [p]. \<not> activePage s p \<longrightarrow> highlightRootsRef ?s1 p = highlightRootsRef s p"
      using ap by simp
    show "\<forall>r < nextRoot s.
        (\<forall>q \<in> set [p]. activePage s q \<longrightarrow>
           (\<forall>hr. highlightRootsRef s q = Some hr \<longrightarrow> reactRoot hr \<noteq> r)) \<longrightarrow>
        rendered ?s1 r = rendered s r"
      using ren by blast
    show "rootsInv D ?s1" by (rule inv1)
    show "\<forall>q \<in> D. activePage ?s1 q = activePage s q" using act by blast
  qed
qed

lemma renderPage_passPost:
  assumes v: "viewerRef s = Some v"
    and dom: "findOrCreateContainerLayer L = findOrCreateContainerLayer_dom"
    and inv: "rootsInv D s" and pD: "p \<in> D"
  shows "\<exists>s1. renderPage L p s = Inr s1 \<and> passPost L D [p] s s1"
proof (cases "connectedRoot s p")
  case True
  then obtain hr where hr: "highlightRootsRef s p = Some hr"
    and con: "isConnected (domState s) (container hr)"
    by (auto simp add: connectedRoot_def split: option.splits)
  from renderPage_connected[OF v hr con] passPost_connected[OF inv hr con]
  show ?thesis by blast
next
  case ncon: False
  show ?thesis
  proof (cases "hasTextLayer s p")
    case True
    from renderPage_created[OF v ncon True dom] obtain layer d where
      r: "renderPage L p s =
        Inr (s\<lparr>domState := d, nextRoot := Suc (nextRoot s),
               highlightRootsRef := (highlightRootsRef s)
                 (p \<mapsto> \<lparr>reactRoot = nextRoot s, container = layer\<rparr>),
               rendered := (rendered s)(nextRoot s \<mapsto> layerElement L s p)\<rparr>)"
      and le: "nextElement (domState s) \<le> nextElement d"
      and same: "\<forall>e < nextElement (domState s). isConnected d e = isConnected (domState s) e"
      by blast
    from r passPost_created[OF inv pD ncon True le same] show ?thesis by blast
  next
    case False
    with ncon have "\<not> activePage s p" by (simp add: activePage_def)
    with renderPage_skipped[OF v ncon False] passPost_skipped[OF inv] show ?thesis by blast
  qed
qed

lemma passPost_compose:
  assumes one: "passPost L D [p] s s1" and rest: "passPost L D ps s1 s'"
    and pD: "p \<in> D" and sub: "set ps \<subseteq> D" and np: "p \<notin> set ps"
  shows "passPost L D (p # ps) s s'"
proof -
  from one have fr1: "frameEq s s1" and nr1: "nextRoot s \<le> nextRoot s1"
    and ro1: "\<And>q. q \<noteq> p \<Longrightarrow> highlightRootsRef s1 q = highlightRootsRef s q"
    and la1: "activePage s p \<Longrightarrow> pageLayer s1 p = Some (layerElement L s p)"
    and in1: "\<not> activePage s p \<Longrightarrow> highlightRootsRef s1 p = highlightRootsRef s p"
    and re1: "\<And>r. r < nextRoot s \<Longrightarrow>
        (activePage s p \<Longrightarrow> (\<forall>hr. highlightRootsRef s p = Some hr \<longrightarrow> reactRoot hr \<noteq> r)) \<Longrightarrow>
        rendered s1 r = rendered s r"
    and inv1: "rootsInv D s1"
    and ac1: "\<And>q. q \<in> D \<Longrightarrow> activePage s1 q = activePage s q"
    by (simp_all add: passPost_def)
  from rest have fr2: "frameEq s1 s'" and nr2: "nextRoot s1 \<le> nextRoot s'"
    and ro2: "\<And>q. q \<notin> set ps \<Longrightarrow> highlightRootsRef s' q = highlightRootsRef s1 q"
    and la2: "\<And>q. q \<in> set ps \<Longrightarrow> activePage s1 q \<Longrightarrow>
        pageLayer s' q = Some (layerElement L s1 q)"
    and in2: "\<And>q. q \<in> set ps \<Longrightarrow> \<not> activePage s1 q \<Longrightarrow>
        highlightRootsRef s' q = highlightRootsRef s1 q"
    and re2: "\<And>r. r < nextRoot s1 \<Longrightarrow>
        (\<forall>q \<in> set ps. activePage s1 q \<longrightarrow>
           (\<forall>hr. highlightRootsRef s1 q = Some hr \<longrightarrow> reactRoot hr \<noteq> r)) \<Longrightarrow>
        rendered s' r = rendered s1 r"
    and inv2: "rootsInv D s'"
    and ac2: "\<And>q. q \<in> D \<Longrightarrow> activePage s' q = activePage s1 q"
    by (simp_all add: passPost_def)
  have A: "frameEq s s'" using fr1 fr2 by (rule frameEq_trans)
  have B: "nextRoot s \<le> nextRoot s'" using nr1 nr2 by simp
  have C: "highlightRootsRef s' q = highlightRootsRef s q" if "q \<notin> set (p # ps)" for q
    using that ro1[of q] ro2[of q] by simp
  have Ep: "pageLayer s' p = Some (layerElement L s p)" if ap: "activePage s p"
  proof -
    from la1[OF ap] obtain hr where hr: "highlightRootsRef s1 p = Some hr"
      and r1: "rendered s1 (reactRoot hr) = Some (layerElement L s p)"
      by (auto simp add: pageLayer_def split: option.splits)
    from inv1 pD hr have lt: "reactRoot hr < nextRoot s1"
      and dist: "\<forall>q \<in> D. \<forall>hr'. highlightRootsRef s1 q = Some hr' \<and> reactRoot hr' = reactRoot hr
          \<longrightarrow> q = p"
      by (simp_all add: rootsInv_def)
    have "\<forall>q \<in> set ps. activePage s1 q \<longrightarrow>
           (\<forall>hr'. highlightRootsRef s1 q = Some hr' \<longrightarrow> reactRoot hr' \<noteq> reactRoot hr)"
      using dist sub np by blast
    from re2[OF lt this] r1 have "rendered s' (reactRoot hr) = Some (layerElement L s p)"
      by simp
    moreover from ro2[OF np] hr have "highlightRootsRef s' p = Some hr" by simp
    ultimately show ?thesis by (simp add: pageLayer_def)
  qed
  have Eq: "pageLayer s' q = Some (layerElement L s q)" if "q \<in> set ps" "activePage s q" for q
  proof -
    from that sub have "activePage s1 q" by (auto simp add: ac1)
    from la2[OF that(1) this] layerElement_frame[OF fr1] show ?thesis by simp
  qed
  have Fp: "highlightRootsRef s' p = highlightRootsRef s p" if "\<not> activePage s p"
    using in1[OF that] ro2[OF np] by simp
  have Fq: "highlightRootsRef s' q = highlightRootsRef s q" if "q \<in> set ps" "\<not> activePage s q" for q
  proof -
    from that sub have "\<not> activePage s1 q" by (auto simp add: ac1)
    moreover from that np have "q \<noteq> p" by auto
    ultimately show ?thesis using in2[OF that(1)] ro1[of q] by simp
  qed
  have G: "rendered s' r = rendered s r"
    if lt: "r < nextRoot s"
      and no: "\<forall>q \<in> set (p # ps). activePage s q \<longrightarrow>
           (\<forall>hr. highlightRootsRef s q = Some hr \<longrightarrow> reactRoot hr \<noteq> r)" for r
  proof -
    from no have "activePage s p \<Longrightarrow> (\<forall>hr. highlightRootsRef s p = Some hr \<longrightarrow> reactRoot hr \<noteq> r)"
      by simp
    from re1[OF lt this] have a: "rendered s1 r = rendered s r" .
    from lt nr1 have lt1: "r < nextRoot s1" by simp
    have "\<forall>q \<in> set ps. activePage s1 q \<longrightarrow>
           (\<forall>hr. highlightRootsRef s1 q = Some hr \<longrightarrow> reactRoot hr \<noteq> r)"
    proof (intro ballI impI allI)
      fix q hr
      assume q: "q \<in> set ps" and "activePage s1 q" and hr: "highlightRootsRef s1 q = Some hr"
      with sub have "activePage s q" by (auto simp add: ac1)
      moreover from q np have "q \<noteq> p" by auto
      with hr have "highlightRootsRef s q = Some hr" by (simp add: ro1)
      ultimately show "reactRoot hr \<noteq> r" using no q by simp
    qed
    from re2[OF lt1 this] a show ?thesis by simp
  qed
  have I: "activePage s' q = activePage s q" if "q \<in> D" for q
    using that by (simp add: ac1 ac2)
  show ?thesis
    unfolding passPost_def
  proof (intro conjI)
    show "frameEq s s'" by (rule A)
    show "nextRoot s \<le> nextRoot s'" by (rule B)
    show "\<forall>q. q \<notin> set (p # ps) \<longrightarrow> highlightRootsRef s' q = highlightRootsRef s q"
      using C by blast
    show "\<forall>q \<in> set (p # ps). activePage s q \<longrightarrow> pageLayer s' q = Some (layerElement L s q)"
      using Ep Eq by auto
    show "\<forall>q \<in> set (p # ps). \<not> activePage s q \<longrightarrow> highlightRootsRef s' q = highlightRootsRef s q"
      using Fp Fq by auto
    show "\<forall>r < nextRoot s.
        (\<forall>q \<in> set (p # ps). activePage s q \<longrightarrow>
           (\<forall>hr. highlightRootsRef s q = Some hr \<longrightarrow> reactRoot hr \<noteq> r)) \<longrightarrow>
        rendered s' r = rendered s r"
      using G by blast
    show "rootsInv D s'" by (rule inv2)
    show "\<forall>q \<in> D. activePage s' q = activePage s q" using I by blast
  qed
qed

lemma renderPagesSeq_passPost:
  assumes "viewerRef s = Some v"
    and "findOrCreateContainerLayer L = findOrCreateContainerLayer_dom"
    and "rootsInv D s" and "distinct ps" and "set ps \<subseteq> D"
  shows "\<exists>s'. renderPagesSeq L ps s = Inr s' \<and> passPost L D ps s s'"
  using assms
proof (induction ps arbitrary: s)
  case Nil
  then show ?case by (simp add: renderPagesSeq_def passPost_Nil)
next
  case (Cons p ps)
  from Cons.prems have pD: "p \<in> D" and sub: "set ps \<subseteq> D" and np: "p \<notin> set ps"
    and dist: "distinct ps"
    by simp_all
  from renderPage_passPost[OF Cons.prems(1,2,3) pD] obtain s1
    where s1: "renderPage L p s = Inr s1" and one: "passPost L D [p] s s1"
    by blast
  from one have "frameEq s s1" and inv1: "rootsInv D s1" by (simp_all add: passPost_def)
  with Cons.prems(1) have v1: "viewerRef s1 = Some v" by (simp add: frameEq_def)
  from Cons.IH[OF v1 Cons.prems(2) inv1 dist sub] obtain s'
    where s': "renderPagesSeq L ps s1 = Inr s'" and rest: "passPost L D ps s1 s'"
    by blast
  from s1 s' have "renderPagesSeq L (p # ps) s = Inr s'"
    by (simp add: renderPagesSeq_Cons)
  with passPost_compose[OF one rest pD sub np] show ?case by blast
qed

lemma renderPagesFrom_no_viewer:
  "viewerRef s = None \<Longrightarrow> stateOf (renderPagesFrom P L k s) = s"
proof (induction P L k s rule: renderPagesFrom.induct)
  case (1 P L pageNumber s)
  show ?case
  proof (cases "pageNumber \<le> numPages P")
    case False
    then show ?thesis by (simp add: renderPagesFrom.simps stateOf_def)
  next
    case True
    from "1.prems" have "renderPage L pageNumber s = Inr s \<or>
        renderPage L pageNumber s = Inl (TypeError, s)"
      by (simp add: renderPage_def renderHighlightLayer_def findOrCreateHighlightLayer_def
          split: option.splits)
    then show ?thesis
    proof
      assume r: "renderPage L pageNumber s = Inr s"
      with "1.IH"[OF True r "1.prems"] True show ?thesis
        by (simp add: renderPagesFrom.simps[of P L pageNumber s])
    next
      assume "renderPage L pageNumber s = Inl (TypeError, s)"
      with True show ?thesis
        by (simp add: renderPagesFrom.simps[of P L pageNumber s] stateOf_def)
    qed
  qed
qed

lemma rootsAllocated_rootsInv:
  assumes "rootsAllocated P s"
  shows "rootsInv (set (documentPages P)) s"
  unfolding rootsInv_def
proof (intro ballI allI impI)
  fix p hr
  assume p: "p \<in> set (documentPages P)" and hr: "highlightRootsRef s p = Some hr"
  from assms p have "case highlightRootsRef s p of
         None \<Rightarrow> True
       | Some hr \<Rightarrow>
           reactRoot hr < nextRoot s \<and> container hr < nextElement (domState s) \<and>
           (\<forall>q \<in> set (documentPages P).
              case highlightRootsRef s q of
                None \<Rightarrow> True
              | Some hr' \<Rightarrow> reactRoot hr' = reactRoot hr \<longrightarrow> q = p)"
    unfolding rootsAllocated_def by (rule bspec)
  with hr have a: "reactRoot hr < nextRoot s" and b: "container hr < nextElement (domState s)"
    and c: "\<forall>q \<in> set (documentPages P).
              case highlightRootsRef s q of
                None \<Rightarrow> True
              | Some hr' \<Rightarrow> reactRoot hr' = reactRoot hr \<longrightarrow> q = p"
    by simp_all
  have "q = p" if "q \<in> set (documentPages P)" "highlightRootsRef s q = Some hr'"
    "reactRoot hr' = reactRoot hr" for q hr'
  proof -
    from c that(1) have "case highlightRootsRef s q of
                None \<Rightarrow> True
              | Some hr' \<Rightarrow> reactRoot hr' = reactRoot hr \<longrightarrow> q = p"
      by (rule bspec)
    with that(2,3) show ?thesis by simp
  qed
  with a b show "reactRoot hr < nextRoot s \<and>
       (\<not> hasTextLayer s p \<longrightarrow> container hr < nextElement (domState s)) \<and>
       (\<forall>q \<in> set (documentPages P). \<forall>hr'.
           highlightRootsRef s q = Some hr' \<and> reactRoot hr' = reactRoot hr \<longrightarrow> q = p)"
    by blast
qed

lemma passPost_twice:
  assumes one: "passPost L D ps s s1" and two: "passPost L D ps s1 s2"
    and p: "p \<in> set ps" and sub: "set ps \<subseteq> D"
  shows "pageLayer s2 p = pageLayer s1 p"
proof -
  from one have fr1: "frameEq s s1"
    and la1: "\<And>q. q \<in> set ps \<Longrightarrow> activePage s q \<Longrightarrow>
        pageLayer s1 q = Some (layerElement L s q)"
    and inv1: "rootsInv D s1"
    and ac1: "\<And>q. q \<in> D \<Longrightarrow> activePage s1 q = activePage s q"
    by (simp_all add: passPost_def)
  from two have la2: "\<And>q. q \<in> set ps \<Longrightarrow> activePage s1 q \<Longrightarrow>
        pageLayer s2 q = Some (layerElement L s1 q)"
    and in2: "\<And>q. q \<in> set ps \<Longrightarrow> \<not> activePage s1 q \<Longrightarrow>
        highlightRootsRef s2 q = highlightRootsRef s1 q"
    and re2: "\<And>r. r < nextRoot s1 \<Longrightarrow>
        (\<forall>q \<in> set ps. activePage s1 q \<longrightarrow>
           (\<forall>hr. highlightRootsRef s1 q = Some hr \<longrightarrow> reactRoot hr \<noteq> r)) \<Longrightarrow>
        rendered s2 r = rendered s1 r"
    by (simp_all add: passPost_def)
  from p sub have pD: "p \<in> D" by blast
  show ?thesis
  proof (cases "activePage s p")
    case True
    with ac1[OF pD] have "activePage s1 p" by simp
    from la2[OF p this] la1[OF p True] layerElement_frame[OF fr1] show ?thesis by simp
  next
    case False
    with ac1[OF pD] have na: "\<not> activePage s1 p" by simp
    from in2[OF p na] have roots: "highlightRootsRef s2 p = highlightRootsRef s1 p" .
    show ?thesis
    proof (cases "highlightRootsRef s1 p")
      case None
      with roots show ?thesis by (simp add: pageLayer_def)
    next
      case (Some hr)
      from inv1 pD Some have lt: "reactRoot hr < nextRoot s1"
        and dist: "\<forall>q \<in> D. \<forall>hr'. highlightRootsRef s1 q = Some hr' \<and> reactRoot hr' = reactRoot hr
            \<longrightarrow> q = p"
        by (simp_all add: rootsInv_def)
      have no: "\<forall>q \<in> set ps. activePage s1 q \<longrightarrow>
             (\<forall>hr'. highlightRootsRef s1 q = Some hr' \<longrightarrow> reactRoot hr' \<noteq> reactRoot hr)"
        using dist sub na by blast
      from re2[OF lt no] roots Some show ?thesis by (simp add: pageLayer_def)
    qed
  qed
qed

text \<open>
  The early returns that do hold: \<^verbatim>\<open>onSelectionChange\<close> without a selection, with a
  collapsed selection (only \<^verbatim>\<open>isCollapsedRef\<close> is set), without a range, without a
  container or with a range outside the container; \<^verbatim>\<open>afterSelection\<close> without a range,
  with a collapsed selection, without pages or with an empty list of client rects;
  \<^verbatim>\<open>findOrCreateHighlightLayer\<close>, when there is a viewer, without a page view or a text
  layer (it returns null). Each gives back the state as it was.
\<close>

lemma failure_modes_return_early:
  "(getSelection ev = None \<longrightarrow> onSelectionChange ev s = s)
  \<and> (getSelection ev = Some sel \<and> isCollapsed sel \<longrightarrow>
        onSelectionChange ev s = s\<lparr>isCollapsedRef := True\<rparr>)
  \<and> (getSelection ev = Some sel \<and> \<not> isCollapsed sel \<and>
       (rangeCount sel = 0 \<or> containerNodeRef s = None \<or>
        \<not> containerContains ev (commonAncestorContainer (getRangeAt0 sel))) \<longrightarrow>
        onSelectionChange ev s = s)
  \<and> (rangeRef s = None \<or> isCollapsedRef s \<or>
       (\<exists>r. rangeRef s = Some r \<and>
          (getPagesFromRange L r = None \<or> getPagesFromRange L r = Some [] \<or>
           (\<exists>pages. getPagesFromRange L r = Some pages \<and> getClientRects L r pages = []))) \<longrightarrow>
        afterSelection P L s = s)
  \<and> (viewerRef s = Some v \<and>
       (getPageView v (int page - 1) = None \<or>
        (\<exists>pv. getPageView v (int page - 1) = Some pv \<and> textLayer pv = None)) \<longrightarrow>
        findOrCreateHighlightLayer L page s = Inr (None, s))"
  by (auto simp add: onSelectionChange_def afterSelection_def findOrCreateHighlightLayer_def
      Let_def split: option.splits)

lemma failure_modes_return_early_example:
  "onSelectionChange \<lparr>getSelection = None, containerContains = (\<lambda>e. True)\<rparr> exampleFinished
      = exampleFinished
    \<and> onSelectionChange outsideContainer exampleFinished = exampleFinished
    \<and> afterSelection exampleProps exampleLib exampleState = exampleState
    \<and> findOrCreateHighlightLayer exampleLib 2 exampleState = Inr (None, exampleState)"
  using
    failure_modes_return_early[where ev = "\<lparr>getSelection = None, containerContains = (\<lambda>e. True)\<rparr>"
      and s = exampleFinished]
    failure_modes_return_early[where ev = outsideContainer and s = exampleFinished
      and sel = "\<lparr>rangeCount = 1, isCollapsed = False,
                  getRangeAt0 = \<lparr>commonAncestorContainer = 7,
                                 range_toString = ''text and more''\<rparr>\<rparr>"]
    failure_modes_return_early[where s = exampleState and P = exampleProps and L = exampleLib
      and v = exampleViewer and page = 2]
  by (simp add: exampleState_def initialState_def exampleViewer_def getPageView_def
      outsideContainer_def)


section \<open>Claims\<close>

text \<open>
  C9. For every call to \<^verbatim>\<open>showTip\<close>: if the current selection is non-collapsed, or a
  ghost highlight exists, or an area selection is in progress, then \<^verbatim>\<open>showTip\<close> returns
  without changing any state; in particular the tip position and the tip children
  remain exactly as they were.
\<close>

theorem showTip_guard_frame:
  assumes "\<not> isCollapsedRef s \<or> ghostHighlightRef s \<noteq> None \<or> isAreaSelectionInProgressRef s"
  shows "showTip t s = s
    \<and> tipPosition (showTip t s) = tipPosition s
    \<and> tipChildren (showTip t s) = tipChildren s"
  using assms by (simp add: showTip_def)

theorem showTip_guard_frame_witness:
  "\<not> isCollapsedRef exampleFinished
    \<and> showTip exampleTip exampleFinished = exampleFinished
    \<and> tipPosition (showTip exampleTip exampleFinished) = Some exampleViewportPosition"
  using showTip_guard_frame[of exampleFinished exampleTip]
  by (simp add: exampleFinished_def)

text \<open>
  C1. The claim: a finished selection (with its pending ghost highlight and tip) is
  discarded both on a pointer-down outside the tip container and on Escape. On Escape
  \<^verbatim>\<open>handleKeyDown\<close> only logs and re-renders the highlight layers: the ghost highlight and
  the tip stay exactly as they were, at every state. A pointer-down outside the tip
  container does discard them: it runs \<^verbatim>\<open>hideTipAndGhostHighlight\<close>.
\<close>

theorem handleKeyDown_Escape_keeps_tip_and_ghost:
  "ghostHighlightRef (stateOf (handleKeyDown P L ''Escape'' s)) = ghostHighlightRef s
    \<and> tipPosition (stateOf (handleKeyDown P L ''Escape'' s)) = tipPosition s
    \<and> tipChildren (stateOf (handleKeyDown P L ''Escape'' s)) = tipChildren s
    \<and> handleKeyDown P L ''Escape'' s =
        renderHighlightLayers P L (s\<lparr>consoleLog := consoleLog s @ [''Escape!'']\<rparr>)
    \<and> (targetIsHTMLElement pe \<and> \<not> targetInTipContainer pe \<longrightarrow>
          onMouseDown P L pe s = hideTipAndGhostHighlight P L s
          \<and> ghostHighlightRef (stateOf (onMouseDown P L pe s)) = None
          \<and> tipPosition (stateOf (onMouseDown P L pe s)) = None
          \<and> tipChildren (stateOf (onMouseDown P L pe s)) = None)"
  by (simp add: handleKeyDown_def onMouseDown_def renderHighlightLayers_fields
      hideTipAndGhostHighlight_clears)

theorem handleKeyDown_Escape_keeps_tip_and_ghost_witness:
  "ghostHighlightRef (stateOf (handleKeyDown exampleProps exampleLib ''Escape'' exampleFinished))
      = Some \<lparr>gh_content = exampleContent, gh_position = exampleScaledPosition\<rparr>
    \<and> tipPosition (stateOf (handleKeyDown exampleProps exampleLib ''Escape'' exampleFinished))
      = Some exampleViewportPosition
    \<and> tipChildren (stateOf (handleKeyDown exampleProps exampleLib ''Escape'' exampleFinished))
      = Some (ReactElement ''tip'' [])
    \<and> ghostHighlightRef
        (stateOf (onMouseDown exampleProps exampleLib
          \<lparr>targetIsHTMLElement = True, targetInTipContainer = False\<rparr> exampleFinished)) = None
    \<and> tipPosition
        (stateOf (onMouseDown exampleProps exampleLib
          \<lparr>targetIsHTMLElement = True, targetInTipContainer = False\<rparr> exampleFinished)) = None"
proof -
  let ?pe = "\<lparr>targetIsHTMLElement = True, targetInTipContainer = False\<rparr>"
  have outside: "targetIsHTMLElement ?pe \<and> \<not> targetInTipContainer ?pe"
    by simp
  from outside
    handleKeyDown_Escape_keeps_tip_and_ghost[of exampleProps exampleLib exampleFinished ?pe]
  have "ghostHighlightRef (stateOf (handleKeyDown exampleProps exampleLib ''Escape'' exampleFinished))
      = ghostHighlightRef exampleFinished"
    and "tipPosition (stateOf (handleKeyDown exampleProps exampleLib ''Escape'' exampleFinished))
      = tipPosition exampleFinished"
    and "tipChildren (stateOf (handleKeyDown exampleProps exampleLib ''Escape'' exampleFinished))
      = tipChildren exampleFinished"
    and "ghostHighlightRef (stateOf (onMouseDown exampleProps exampleLib ?pe exampleFinished)) = None"
    and "tipPosition (stateOf (onMouseDown exampleProps exampleLib ?pe exampleFinished)) = None"
    by blast+
  then show ?thesis
    by (simp add: exampleFinished_def)
qed







text \<open>
  C3. \<^verbatim>\<open>renderHighlightLayers\<close> runs the body of its loop for every page of the document,
  in order. For a page, the body reuses the existing React root of the page when the
  container of the root is still attached to the document: it renders into that root
  and creates nothing. When the container is detached, or the page has no root yet, it
  does not render into the stale root: as soon as the text layer of the page exists, it
  takes the highlight-layer container that \<^verbatim>\<open>findOrCreateContainerLayer\<close> returns for the
  text layer, creates a new root for it, stores both for the page and renders into the
  new root only. Such a page without a text layer is skipped entirely: nothing changes.
\<close>

theorem renderHighlightLayers_reuses_or_recreates:
  "renderHighlightLayers P L s = renderPagesSeq L (documentPages P) s
  \<and> (highlightRootsRef s p = Some hr \<and> isConnected (domState s) (container hr) \<longrightarrow>
       renderPage L p s = Inr (renderHighlightLayer L (reactRoot hr) p s)
       \<and> highlightRootsRef (renderHighlightLayer L (reactRoot hr) p s) = highlightRootsRef s
       \<and> nextRoot (renderHighlightLayer L (reactRoot hr) p s) = nextRoot s
       \<and> domState (renderHighlightLayer L (reactRoot hr) p s) = domState s
       \<and> (viewerRef s = Some v \<longrightarrow>
            rendered (renderHighlightLayer L (reactRoot hr) p s) (reactRoot hr) =
              Some (layerElement L s p)))
  \<and> ((highlightRootsRef s p = None \<or>
       (\<exists>stale. highlightRootsRef s p = Some stale \<and>
                \<not> isConnected (domState s) (container stale))) \<and>
      viewerRef s = Some v \<and> getPageView v (int p - 1) = Some pv \<and>
      textLayer pv = Some tlayer \<and>
      findOrCreateContainerLayer L (textLayerDiv tlayer) ''PdfHighlighter__highlight-layer''
        (domState s) = (layer, d) \<longrightarrow>
       (\<exists>s'. renderPage L p s = Inr s'
          \<and> highlightRootsRef s' p = Some \<lparr>reactRoot = nextRoot s, container = layer\<rparr>
          \<and> nextRoot s' = Suc (nextRoot s)
          \<and> domState s' = d
          \<and> rendered s' (nextRoot s) = Some (layerElement L s p)
          \<and> (\<forall>r. r \<noteq> nextRoot s \<longrightarrow> rendered s' r = rendered s r)))
  \<and> ((highlightRootsRef s p = None \<or>
       (\<exists>stale. highlightRootsRef s p = Some stale \<and>
                \<not> isConnected (domState s) (container stale))) \<and>
      viewerRef s = Some v \<and>
      (getPageView v (int p - 1) = None \<or>
       (\<exists>pv. getPageView v (int p - 1) = Some pv \<and> textLayer pv = None)) \<longrightarrow>
       renderPage L p s = Inr s)"
proof (intro conjI impI)
  show "renderHighlightLayers P L s = renderPagesSeq L (documentPages P) s"
    by (simp add: renderHighlightLayers_def documentPages_def renderPagesFrom_seq)
next
  assume a: "(highlightRootsRef s p = None \<or>
       (\<exists>stale. highlightRootsRef s p = Some stale \<and>
                \<not> isConnected (domState s) (container stale))) \<and>
      viewerRef s = Some v \<and> getPageView v (int p - 1) = Some pv \<and>
      textLayer pv = Some tlayer \<and>
      findOrCreateContainerLayer L (textLayerDiv tlayer) ''PdfHighlighter__highlight-layer''
        (domState s) = (layer, d)"
  then show "\<exists>s'. renderPage L p s = Inr s'
          \<and> highlightRootsRef s' p = Some \<lparr>reactRoot = nextRoot s, container = layer\<rparr>
          \<and> nextRoot s' = Suc (nextRoot s)
          \<and> domState s' = d
          \<and> rendered s' (nextRoot s) = Some (layerElement L s p)
          \<and> (\<forall>r. r \<noteq> nextRoot s \<longrightarrow> rendered s' r = rendered s r)"
    by (auto simp add: renderPage_def findOrCreateHighlightLayer_def renderHighlightLayer_def
        layerElement_def)
next
  assume "(highlightRootsRef s p = None \<or>
       (\<exists>stale. highlightRootsRef s p = Some stale \<and>
                \<not> isConnected (domState s) (container stale))) \<and>
      viewerRef s = Some v \<and>
      (getPageView v (int p - 1) = None \<or>
       (\<exists>pv. getPageView v (int p - 1) = Some pv \<and> textLayer pv = None))"
  then show "renderPage L p s = Inr s"
    by (auto simp add: renderPage_def findOrCreateHighlightLayer_def)
qed (simp_all add: renderPage_def renderHighlightLayer_def layerElement_def
    split: option.splits)

theorem renderHighlightLayers_reuses_or_recreates_witness:
  "renderPage exampleLib 1 exampleAttached =
      Inr (renderHighlightLayer exampleLib 0 1 exampleAttached)
    \<and> rendered (renderHighlightLayer exampleLib 0 1 exampleAttached) 0 =
      Some (layerElement exampleLib exampleAttached 1)
    \<and> highlightRootsRef (stateOf (renderPage exampleLib 1 exampleStale)) 1 =
      Some \<lparr>reactRoot = 1, container = 11\<rparr>
    \<and> rendered (stateOf (renderPage exampleLib 1 exampleStale)) 1 =
      Some (layerElement exampleLib exampleStale 1)
    \<and> rendered (stateOf (renderPage exampleLib 1 exampleStale)) 0 = rendered exampleStale 0
    \<and> renderPage exampleLib 2 exampleStale = Inr exampleStale"
proof -
  let ?pv = "\<lparr>textLayer = Some \<lparr>textLayerDiv = 3\<rparr>,
              pv_viewport = \<lparr>viewport_scale = 2, viewport_width = 1200,
                             viewport_height = 1600\<rparr>\<rparr>"
  let ?v = "exampleViewer\<lparr>pageViews := (pageViews exampleViewer)(0 \<mapsto> ?pv)\<rparr>"
  let ?X = "findOrCreateContainerLayer exampleLib 3 ''PdfHighlighter__highlight-layer''
              (domState exampleStale)"
  let ?d = "(domState exampleStale)
      \<lparr>isConnected := (isConnected (domState exampleStale))
          (11 := isConnected (domState exampleStale) 3),
        layerOf := (layerOf (domState exampleStale))
          (3 := (layerOf (domState exampleStale) 3)(''PdfHighlighter__highlight-layer'' \<mapsto> 11)),
        nextElement := 12\<rparr>"
  have a: "highlightRootsRef exampleAttached 1 = Some \<lparr>reactRoot = 0, container = 10\<rparr>"
    "isConnected (domState exampleAttached) 10"
    "viewerRef exampleAttached = Some exampleViewer"
    by (simp_all add: exampleAttached_def exampleState_def initialState_def)
  have b: "highlightRootsRef exampleStale 1 = Some \<lparr>reactRoot = 0, container = 10\<rparr>"
    "\<not> isConnected (domState exampleStale) 10"
    "viewerRef exampleStale = Some ?v"
    "getPageView ?v (int 1 - 1) = Some ?pv"
    "nextRoot exampleStale = 1"
    "?X = (11, ?d)"
    "highlightRootsRef exampleStale 2 = None"
    "getPageView ?v (int 2 - 1) =
      Some \<lparr>textLayer = None,
            pv_viewport = \<lparr>viewport_scale = 1, viewport_width = 600, viewport_height = 800\<rparr>\<rparr>"
    by (simp_all add: exampleStale_def exampleAttached_def exampleState_def initialState_def
        getPageView_def exampleLib_def findOrCreateContainerLayer_dom_def exampleViewer_def)
  from a
    renderHighlightLayers_reuses_or_recreates[where s = exampleAttached and p = 1
      and P = exampleProps and L = exampleLib and hr = "\<lparr>reactRoot = 0, container = 10\<rparr>" and v = exampleViewer]
  have 1: "renderPage exampleLib 1 exampleAttached =
      Inr (renderHighlightLayer exampleLib 0 1 exampleAttached)
    \<and> rendered (renderHighlightLayer exampleLib 0 1 exampleAttached) 0 =
      Some (layerElement exampleLib exampleAttached 1)"
    by simp
  from b
    renderHighlightLayers_reuses_or_recreates[where s = exampleStale and p = 1
      and P = exampleProps and hr = "\<lparr>reactRoot = 0, container = 10\<rparr>"
      and L = exampleLib and v = ?v and pv = ?pv and tlayer = "\<lparr>textLayerDiv = 3\<rparr>"
      and layer = 11 and d = ?d]
  have 2: "highlightRootsRef (stateOf (renderPage exampleLib 1 exampleStale)) 1 =
      Some \<lparr>reactRoot = 1, container = 11\<rparr>
    \<and> rendered (stateOf (renderPage exampleLib 1 exampleStale)) 1 =
      Some (layerElement exampleLib exampleStale 1)
    \<and> rendered (stateOf (renderPage exampleLib 1 exampleStale)) 0 = rendered exampleStale 0"
    by (auto simp add: stateOf_def)
  from b
    renderHighlightLayers_reuses_or_recreates[where s = exampleStale and p = 2
      and P = exampleProps and hr = "\<lparr>reactRoot = 0, container = 10\<rparr>"
      and L = exampleLib and v = ?v]
  have 3: "renderPage exampleLib 2 exampleStale = Inr exampleStale"
    by simp
  from 1 2 3 show ?thesis by simp
qed

text \<open>
  C7. For a selection with several client rects (several DOM text nodes on one page),
  the viewport position that \<^verbatim>\<open>afterSelection\<close> builds holds exactly one bounding
  rectangle beside the client rects. With the bounding rectangle taken by min/max, its
  left and top edges are the minima and its right and bottom edges the maxima over all
  client rects, so it covers every one of them; and the scaled position handed to
  \<^verbatim>\<open>onSelectionFinished\<close> is computed from the viewport position that already holds the
  bounding rectangle: the reduction happens before the conversion.
\<close>

theorem afterSelection_one_bounding_rect:
  "rangeRef s = Some r \<and> \<not> isCollapsedRef s \<and> getPagesFromRange L r = Some pages \<and>
    pages \<noteq> [] \<and> getClientRects L r pages = rects \<and> rects \<noteq> [] \<longrightarrow>
    tipPosition (afterSelection P (L\<lparr>getBoundingRect := getBoundingRect_minmax\<rparr>) s) =
      Some \<lparr>vp_boundingRect = getBoundingRect_minmax rects, vp_rects = rects\<rparr>
    \<and> rect_left (getBoundingRect_minmax rects) = Min (rect_left ` set rects)
    \<and> rect_top (getBoundingRect_minmax rects) = Min (rect_top ` set rects)
    \<and> rect_left (getBoundingRect_minmax rects) + rect_width (getBoundingRect_minmax rects) =
        Max ((\<lambda>q. rect_left q + rect_width q) ` set rects)
    \<and> rect_top (getBoundingRect_minmax rects) + rect_height (getBoundingRect_minmax rects) =
        Max ((\<lambda>q. rect_top q + rect_height q) ` set rects)
    \<and> (\<forall>q \<in> set rects. covers (getBoundingRect_minmax rects) q)
    \<and> fst (hd (selectionFinishedCalls
          (afterSelection P (L\<lparr>getBoundingRect := getBoundingRect_minmax\<rparr>) s))) =
        viewportPositionToScaled L
          \<lparr>vp_boundingRect = getBoundingRect_minmax rects, vp_rects = rects\<rparr> (viewerRef s)"
proof (intro impI)
  assume a: "rangeRef s = Some r \<and> \<not> isCollapsedRef s \<and> getPagesFromRange L r = Some pages \<and>
    pages \<noteq> [] \<and> getClientRects L r pages = rects \<and> rects \<noteq> []"
  then have ne: "rects \<noteq> []" by simp
  from a have 1: "tipPosition (afterSelection P (L\<lparr>getBoundingRect := getBoundingRect_minmax\<rparr>) s) =
      Some \<lparr>vp_boundingRect = getBoundingRect_minmax rects, vp_rects = rects\<rparr>"
    by (simp add: afterSelection_def Let_def)
  from a have 2: "fst (hd (selectionFinishedCalls
          (afterSelection P (L\<lparr>getBoundingRect := getBoundingRect_minmax\<rparr>) s))) =
        viewportPositionToScaled L
          \<lparr>vp_boundingRect = getBoundingRect_minmax rects, vp_rects = rects\<rparr> (viewerRef s)"
    by (simp add: afterSelection_def Let_def)
  from 1 2 getBoundingRect_minmax_sides[OF ne] getBoundingRect_minmax_covers[of _ rects]
  show "tipPosition (afterSelection P (L\<lparr>getBoundingRect := getBoundingRect_minmax\<rparr>) s) =
      Some \<lparr>vp_boundingRect = getBoundingRect_minmax rects, vp_rects = rects\<rparr>
    \<and> rect_left (getBoundingRect_minmax rects) = Min (rect_left ` set rects)
    \<and> rect_top (getBoundingRect_minmax rects) = Min (rect_top ` set rects)
    \<and> rect_left (getBoundingRect_minmax rects) + rect_width (getBoundingRect_minmax rects) =
        Max ((\<lambda>q. rect_left q + rect_width q) ` set rects)
    \<and> rect_top (getBoundingRect_minmax rects) + rect_height (getBoundingRect_minmax rects) =
        Max ((\<lambda>q. rect_top q + rect_height q) ` set rects)
    \<and> (\<forall>q \<in> set rects. covers (getBoundingRect_minmax rects) q)
    \<and> fst (hd (selectionFinishedCalls
          (afterSelection P (L\<lparr>getBoundingRect := getBoundingRect_minmax\<rparr>) s))) =
        viewportPositionToScaled L
          \<lparr>vp_boundingRect = getBoundingRect_minmax rects, vp_rects = rects\<rparr> (viewerRef s)"
    by simp
qed

theorem afterSelection_one_bounding_rect_witness:
  "tipPosition (afterSelection exampleProps exampleLib exampleSelecting) =
      Some \<lparr>vp_boundingRect =
              \<lparr>rect_left = 5, rect_top = 20, rect_width = 50, rect_height = 10,
                rect_pageNumber = Some 1\<rparr>,
            vp_rects = exampleRects\<rparr>
    \<and> covers \<lparr>rect_left = 5, rect_top = 20, rect_width = 50, rect_height = 10,
               rect_pageNumber = Some 1\<rparr> (exampleRects ! 0)
    \<and> covers \<lparr>rect_left = 5, rect_top = 20, rect_width = 50, rect_height = 10,
               rect_pageNumber = Some 1\<rparr> (exampleRects ! 1)"
proof -
  have L: "exampleLib\<lparr>getBoundingRect := getBoundingRect_minmax\<rparr> = exampleLib"
    by (simp add: exampleLib_def)
  have B: "getBoundingRect_minmax exampleRects =
      \<lparr>rect_left = 5, rect_top = 20, rect_width = 50, rect_height = 10,
        rect_pageNumber = Some 1\<rparr>"
    by (simp add: getBoundingRect_minmax_def exampleRects_def)
  have h: "rangeRef exampleSelecting = Some exampleRange \<and> \<not> isCollapsedRef exampleSelecting \<and>
      getPagesFromRange exampleLib exampleRange = Some [\<lparr>page_node = 1, page_number = 1\<rparr>] \<and>
      [\<lparr>page_node = 1, page_number = 1\<rparr>] \<noteq> [] \<and>
      getClientRects exampleLib exampleRange [\<lparr>page_node = 1, page_number = 1\<rparr>] = exampleRects \<and>
      exampleRects \<noteq> []"
    by (simp add: exampleSelecting_def exampleLib_def exampleRects_def)
  from afterSelection_one_bounding_rect[where s = exampleSelecting and r = exampleRange
      and L = exampleLib and P = exampleProps
      and pages = "[\<lparr>page_node = 1, page_number = 1\<rparr>]" and rects = exampleRects] h
  have "tipPosition (afterSelection exampleProps exampleLib exampleSelecting) =
      Some \<lparr>vp_boundingRect = getBoundingRect_minmax exampleRects, vp_rects = exampleRects\<rparr>
    \<and> (\<forall>q \<in> set exampleRects. covers (getBoundingRect_minmax exampleRects) q)"
    unfolding L by blast
  then show ?thesis
    unfolding B by (simp add: exampleRects_def)
qed

text \<open>
  C6, as amended. A selectionchange event never computes selection coordinates itself:
  its handler leaves the tip and the calls of \<^verbatim>\<open>onSelectionFinished\<close> as they were. Over
  any sequence of events after mounting, \<^verbatim>\<open>afterSelection\<close> is invoked only by the debounce
  timer, at least 100 ms after the newest call of the debounced function, that is after
  the newest selectionchange event that \<^verbatim>\<open>onSelectionChange\<close> accepted (a non-collapsed
  selection with a range inside the container), and at most once for that call. Events
  that \<^verbatim>\<open>onSelectionChange\<close> rejects do not restart the 100 ms: exactly the accepted
  events set the timer, to 100 ms from the event.
\<close>

theorem afterSelection_debounced:
  "debounced (debounceLog (run P L evs (initialState hs cn v d)))
  \<and> tipPosition (step P L (SelectionChange sc) s) = tipPosition s
  \<and> tipChildren (step P L (SelectionChange sc) s) = tipChildren s
  \<and> selectionFinishedCalls (step P L (SelectionChange sc) s) = selectionFinishedCalls s
  \<and> debounceTimer (step P L (SelectionChange sc) s) =
      (if (case getSelection sc of
             None \<Rightarrow> False
           | Some sel \<Rightarrow>
               \<not> isCollapsed sel \<and> 0 < rangeCount sel \<and> containerNodeRef s \<noteq> None \<and>
               containerContains sc (commonAncestorContainer (getRangeAt0 sel)))
       then Some (now s + 100) else debounceTimer s)"
proof -
  have "timerInv (initialState hs cn v d)"
    by (simp add: timerInv_def initialState_def)
  then have "timerInv (run P L evs (initialState hs cn v d))"
    by (rule run_timerInv)
  then have "debounced (debounceLog (run P L evs (initialState hs cn v d)))"
    by (simp add: timerInv_def)
  moreover have "tipPosition (step P L (SelectionChange sc) s) = tipPosition s
      \<and> tipChildren (step P L (SelectionChange sc) s) = tipChildren s
      \<and> selectionFinishedCalls (step P L (SelectionChange sc) s) = selectionFinishedCalls s"
    by (simp add: step_def onSelectionChange_computes_nothing)
  ultimately show ?thesis
    using onSelectionChange_timer[of P L sc s] by blast
qed

theorem afterSelection_debounced_witness:
  "debounceLog
      (run exampleProps exampleLib
        [SelectionChange accepted, Wait 50, SelectionChange outsideContainer, Wait 50]
        exampleState)
      = [Invoked 100, Handled 50, Called 0, Handled 0]
    \<and> debounced
        (debounceLog
          (run exampleProps exampleLib
            [SelectionChange accepted, Wait 50, SelectionChange outsideContainer, Wait 50]
            exampleState))"
  using afterSelection_debounced[where P = exampleProps and L = exampleLib
      and evs = "[SelectionChange accepted, Wait 50, SelectionChange outsideContainer, Wait 50]"
      and hs = "[]" and cn = "Some 0" and v = "Some exampleViewer" and d = exampleDom]
  by (simp add: exampleState_def run_def step_def initialState_def onSelectionChange_def
      accepted_def outsideContainer_def debouncedAfterSelection_def wait_def fireDebounce_def
      fireTimeouts_def afterSelection_def exampleLib_def exampleRange_def exampleRects_def
      Let_def)

text \<open>
  C6 as stated fails: the quiet period is not counted from the last selectionchange
  event. A selection inside the container at 0 ms starts the timer; a selectionchange
  event at 50 ms whose range is outside the container is rejected and does not restart
  it; at 100 ms, 50 ms after that event, \<^verbatim>\<open>afterSelection\<close> runs and computes the position.
\<close>

theorem afterSelection_runs_after_last_event_counterexample:
  "debounceLog
      (run exampleProps exampleLib
        [SelectionChange accepted, Wait 50, SelectionChange outsideContainer, Wait 50]
        exampleState)
      = [Invoked 100, Handled 50, Called 0, Handled 0]
    \<and> \<not> settled
        (debounceLog
          (run exampleProps exampleLib
            [SelectionChange accepted, Wait 50, SelectionChange outsideContainer, Wait 50]
            exampleState))
    \<and> tipPosition
        (run exampleProps exampleLib
          [SelectionChange accepted, Wait 50, SelectionChange outsideContainer, Wait 50]
          exampleState)
      = Some exampleViewportPosition"
  by (simp add: exampleState_def run_def step_def initialState_def onSelectionChange_def
      accepted_def outsideContainer_def debouncedAfterSelection_def wait_def fireDebounce_def
      fireTimeouts_def afterSelection_def exampleLib_def exampleRange_def
      exampleViewportPosition_def exampleRects_def Let_def)

text \<open>
  C8. Rendering the highlight layers is idempotent. From a state whose roots and
  containers were created before, calling \<^verbatim>\<open>renderHighlightLayers\<close> a second time, with the
  highlights, the ghost highlight and the viewer as the first call left them (it does
  not change them), leaves every page of the document showing the same layer element,
  hence the same highlight rectangles, as after the first call; a rendered page shows
  the layer element of the current highlights.
\<close>

theorem renderHighlightLayers_idempotent:
  "rootsAllocated P s \<longrightarrow>
    (\<forall>p \<in> set (documentPages P).
       pageLayer (stateOf (renderHighlightLayers P (withDom L)
                    (stateOf (renderHighlightLayers P (withDom L) s)))) p =
         pageLayer (stateOf (renderHighlightLayers P (withDom L) s)) p
       \<and> (viewerRef s \<noteq> None \<and> activePage s p \<longrightarrow>
            pageLayer (stateOf (renderHighlightLayers P (withDom L) s)) p =
              Some (layerElement (withDom L) s p)))
    \<and> highlightsRef (stateOf (renderHighlightLayers P (withDom L) s)) = highlightsRef s
    \<and> ghostHighlightRef (stateOf (renderHighlightLayers P (withDom L) s)) = ghostHighlightRef s
    \<and> viewerRef (stateOf (renderHighlightLayers P (withDom L) s)) = viewerRef s"
proof (intro impI conjI ballI)
  fix p
  assume alloc: "rootsAllocated P s" and p: "p \<in> set (documentPages P)"
  let ?L = "withDom L"
  let ?D = "set (documentPages P)"
  have dom: "findOrCreateContainerLayer ?L = findOrCreateContainerLayer_dom"
    by (simp add: withDom_def)
  have seq: "renderHighlightLayers P ?L x = renderPagesSeq ?L (documentPages P) x" for x
    by (simp add: renderHighlightLayers_def documentPages_def renderPagesFrom_seq)
  have dist: "distinct (documentPages P)" by (simp add: documentPages_def)
  show "pageLayer (stateOf (renderHighlightLayers P ?L (stateOf (renderHighlightLayers P ?L s)))) p =
         pageLayer (stateOf (renderHighlightLayers P ?L s)) p"
  proof (cases "viewerRef s")
    case None
    then have "stateOf (renderHighlightLayers P ?L s) = s"
      by (simp add: renderHighlightLayers_def renderPagesFrom_no_viewer)
    then show ?thesis by simp
  next
    case (Some v)
    from renderPagesSeq_passPost[OF Some dom rootsAllocated_rootsInv[OF alloc] dist subset_refl]
    obtain s1 where s1: "renderPagesSeq ?L (documentPages P) s = Inr s1"
      and one: "passPost ?L ?D (documentPages P) s s1"
      by blast
    from one Some have v1: "viewerRef s1 = Some v" and inv1: "rootsInv ?D s1"
      by (simp_all add: passPost_def frameEq_def)
    from renderPagesSeq_passPost[OF v1 dom inv1 dist subset_refl]
    obtain s2 where s2: "renderPagesSeq ?L (documentPages P) s1 = Inr s2"
      and two: "passPost ?L ?D (documentPages P) s1 s2"
      by blast
    from passPost_twice[OF one two p subset_refl] s1 s2 show ?thesis
      by (simp add: seq stateOf_def)
  qed
  show "pageLayer (stateOf (renderHighlightLayers P ?L s)) p = Some (layerElement ?L s p)"
    if "viewerRef s \<noteq> None \<and> activePage s p"
  proof -
    from that obtain v where v: "viewerRef s = Some v" and ap: "activePage s p" by auto
    from renderPagesSeq_passPost[OF v dom rootsAllocated_rootsInv[OF alloc] dist subset_refl]
    obtain s1 where s1: "renderPagesSeq ?L (documentPages P) s = Inr s1"
      and one: "passPost ?L ?D (documentPages P) s s1"
      by blast
    from one p ap have "pageLayer s1 p = Some (layerElement ?L s p)"
      by (simp add: passPost_def)
    with s1 show ?thesis by (simp add: seq stateOf_def)
  qed
qed (simp_all add: renderHighlightLayers_fields)

theorem renderHighlightLayers_idempotent_witness:
  "rootsAllocated exampleProps exampleStale
    \<and> pageLayer (stateOf (renderHighlightLayers exampleProps exampleLib
                    (stateOf (renderHighlightLayers exampleProps exampleLib exampleStale)))) 1 =
        pageLayer (stateOf (renderHighlightLayers exampleProps exampleLib exampleStale)) 1
    \<and> pageLayer (stateOf (renderHighlightLayers exampleProps exampleLib exampleStale)) 1 =
        Some (layerElement exampleLib exampleStale 1)
    \<and> pageLayer (stateOf (renderHighlightLayers exampleProps exampleLib
                    (stateOf (renderHighlightLayers exampleProps exampleLib exampleStale)))) 2 =
        pageLayer (stateOf (renderHighlightLayers exampleProps exampleLib exampleStale)) 2"
proof -
  have L: "withDom exampleLib = exampleLib"
    by (simp add: withDom_def exampleLib_def)
  have pages: "documentPages exampleProps = [1, 2]"
    by (simp add: documentPages_def exampleProps_def upt_conv_Cons)
  have alloc: "rootsAllocated exampleProps exampleStale"
    unfolding rootsAllocated_def pages
    by (simp add: exampleStale_def exampleAttached_def exampleState_def initialState_def)
  have act: "viewerRef exampleStale \<noteq> None \<and> activePage exampleStale 1"
    by (simp add: activePage_def hasTextLayer_def exampleStale_def getPageView_def)
  from renderHighlightLayers_idempotent[of exampleProps exampleStale exampleLib] alloc act
  show ?thesis
    unfolding L pages by simp
qed

end
